theory Spec2Isabelle
  imports Main
begin

section \<open>ProcedureDefinitionModel: instrument procedures (SID / STAR)\<close>

text \<open>
  A shallow embedding of
  \<^verbatim>\<open>src/assets/scripts/client/navigationLibrary/Procedure/ProcedureDefinitionModel.js\<close>.
  The object's fields become a record, every method a function from the object (and its
  arguments) to its result; a method that assigns fields returns the object after the
  call, a \<^verbatim>\<open>throw\<close> is the \<open>Inl\<close> of a sum, and \<^verbatim>\<open>undefined\<close> is \<open>None\<close>.
\<close>

subsection \<open>JavaScript data\<close>

text \<open>
  A fix of a segment is a string, or an array of strings whose first element is the fix
  name (\<^verbatim>\<open>['FIXXA', 'A100']\<close>): the name and the elements after it. An element of
  \<^verbatim>\<open>draw\<close> is an array of strings or, in a malformed airport file, a string.
\<close>

datatype restrictedFix = FixName string | FixArray string "string list"

datatype drawItem = LineSegment "string list" | FlatName string

text \<open>
  A plain object (parsed from the airport's JSON) is the list of its own properties in
  the order they were inserted; the keys of one object are pairwise different, and
  \<open>ownKey\<close> says that a string is one of them.
\<close>

type_synonym 'v jsObject = "(string \<times> 'v) list"

definition ownKey :: "string \<Rightarrow> 'v jsObject \<Rightarrow> bool" where
  "ownKey key object = (key \<in> set (map fst object))"

text \<open>
  Every plain object inherits the members of \<^verbatim>\<open>Object.prototype\<close>: the methods of
  the language standard, and the accessors of its annex for browsers. None of them is
  enumerable, and each is a function, but for \<^verbatim>\<open>__proto__\<close>, which reads as the
  prototype object itself.
\<close>

definition Object_prototype_names :: "string list" where
  "Object_prototype_names =
     [''constructor'', ''hasOwnProperty'', ''isPrototypeOf'', ''propertyIsEnumerable'',
      ''toLocaleString'', ''toString'', ''valueOf'', ''__defineGetter__'',
      ''__defineSetter__'', ''__lookupGetter__'', ''__lookupSetter__'', ''__proto__'']"

text \<open>
  \<^verbatim>\<open>key in object\<close> holds for the own keys and for the inherited names.
  \<^verbatim>\<open>object[key]\<close> is the value of the own property, else the inherited member, else
  \<^verbatim>\<open>undefined\<close>.
\<close>

definition keyIn :: "string \<Rightarrow> 'v jsObject \<Rightarrow> bool" where
  "keyIn key object = (ownKey key object \<or> key \<in> set Object_prototype_names)"

datatype 'v jsValue = Own 'v | Inherited | Undefined

definition property :: "'v jsObject \<Rightarrow> string \<Rightarrow> 'v jsValue" where
  "property object key =
     (case map_of object key of
        Some v \<Rightarrow> Own v
      | None \<Rightarrow> if key \<in> set Object_prototype_names then Inherited else Undefined)"

text \<open>
  \<^verbatim>\<open>Object.keys\<close>, and lodash's \<^verbatim>\<open>_forEach\<close> over an object, enumerate the own
  properties in the order of ECMAScript's OrdinaryOwnPropertyKeys: first the keys that
  are array indices (the canonical decimal numerals below \<open>2\<^sup>3\<^sup>2 - 1\<close>) in ascending
  numeric order, then all other keys in insertion order.
\<close>

definition isDigit :: "char \<Rightarrow> bool" where
  "isDigit c = (c \<in> set ''0123456789'')"

definition digitsToInt :: "string \<Rightarrow> int" where
  "digitsToInt s = foldl (\<lambda>n c. 10 * n + (of_char c - 48)) 0 s"

definition isArrayIndex :: "string \<Rightarrow> bool" where
  "isArrayIndex s =
     (s \<noteq> [] \<and> list_all isDigit s \<and> (length s = 1 \<or> hd s \<noteq> CHR ''0'')
      \<and> digitsToInt s < 4294967295)"

definition ownProperties :: "'v jsObject \<Rightarrow> (string \<times> 'v) list" where
  "ownProperties object =
     sort_key (\<lambda>kv. digitsToInt (fst kv)) (filter (\<lambda>kv. isArrayIndex (fst kv)) object)
     @ filter (\<lambda>kv. \<not> isArrayIndex (fst kv)) object"

definition Object_keys :: "'v jsObject \<Rightarrow> string list" where
  "Object_keys object = map fst (ownProperties object)"

definition forEachValues :: "'v jsObject \<Rightarrow> 'v list" where
  "forEachValues object = map snd (ownProperties object)"

text \<open>
  \<^verbatim>\<open>array[i]\<close> is \<^verbatim>\<open>undefined\<close> outside the array; lodash's \<^verbatim>\<open>_isArray\<close> on an
  element of \<^verbatim>\<open>draw\<close>; lodash's \<^verbatim>\<open>_map\<close>, which maps an array elementwise, gives
  the empty array for \<^verbatim>\<open>undefined\<close>, and for an inherited member too: that is no
  array, and \<^verbatim>\<open>_map\<close> then runs over the own enumerable properties of the value, of
  which a function of \<^verbatim>\<open>Object.prototype\<close>, and the prototype itself, have none.
\<close>

definition at :: "'a list \<Rightarrow> int \<Rightarrow> 'a option" where
  "at array i = (if 0 \<le> i \<and> i < int (length array) then Some (array ! nat i) else None)"

fun isArray :: "drawItem option \<Rightarrow> bool" where
  "isArray (Some (LineSegment _)) = True"
| "isArray (Some (FlatName _)) = False"
| "isArray None = False"

fun lodash_map :: "'a list jsValue \<Rightarrow> ('a \<Rightarrow> 'b) \<Rightarrow> 'b list" where
  "lodash_map (Own collection) iteratee = map iteratee collection"
| "lodash_map Inherited iteratee = []"
| "lodash_map Undefined iteratee = []"

text \<open>
  lodash's \<^verbatim>\<open>_uniq\<close>: the loop of \<^verbatim>\<open>baseUniq\<close>, which pushes a value to the result
  unless the result holds it already (\<^verbatim>\<open>undefined\<close> is a value like any other).
\<close>

fun baseUniq :: "'a list \<Rightarrow> 'a list \<Rightarrow> 'a list" where
  "baseUniq result [] = result"
| "baseUniq result (v # array) =
     (if v \<in> set result then baseUniq result array else baseUniq (result @ [v]) array)"

definition uniq :: "'a list \<Rightarrow> 'a list" where
  "uniq array = baseUniq [] array"

text \<open>
  \<^verbatim>\<open>string.replace(c, '')\<close> with a one-character string \<open>c\<close> removes the first
  occurrence of \<open>c\<close> only; \<^verbatim>\<open>string.indexOf(c) !== -1\<close> says that \<open>c\<close> occurs.
\<close>

definition replaceWithEmpty :: "char \<Rightarrow> string \<Rightarrow> string" where
  "replaceWithEmpty c s = remove1 c s"

definition includesChar :: "char \<Rightarrow> string \<Rightarrow> bool" where
  "includesChar c s = (c \<in> set s)"

text \<open>
  Every error the class throws is a \<^verbatim>\<open>TypeError\<close> with a message.
  \<open>EngineTypeError\<close> is a \<^verbatim>\<open>TypeError\<close> of the JavaScript engine itself
  (\<^verbatim>\<open>reduce\<close> of an empty array, a method that a value does not have).
\<close>

datatype error = TypeError string | EngineTypeError

subsection \<open>The object and its construction\<close>

text \<open>
  Modelled from the spec: the enum \<^verbatim>\<open>PROCEDURE_TYPE\<close> of
  \<^verbatim>\<open>constants/aircraftConstants\<close> is not among the sources; the spec names its two
  members SID and STAR.
\<close>

definition PROCEDURE_TYPE_SID :: string where
  "PROCEDURE_TYPE_SID = ''SID''"

definition PROCEDURE_TYPE_STAR :: string where
  "PROCEDURE_TYPE_STAR = ''STAR''"

record ProcedureDefinitionModel =
  body :: "restrictedFix list"
  draw :: "drawItem list"
  entryPoints :: "restrictedFix list jsObject"
  exitPoints :: "restrictedFix list jsObject"
  icao :: string
  name :: string
  procedureType :: string

text \<open>The JSON data of one procedure in the airport file.\<close>

record procedureData =
  data_body :: "restrictedFix list"
  data_draw :: "drawItem list"
  data_icao :: string
  data_name :: string
  data_rwy :: "restrictedFix list jsObject"
  data_entryPoints :: "restrictedFix list jsObject"
  data_exitPoints :: "restrictedFix list jsObject"

definition initEntriesAndExitsForSid ::
  "ProcedureDefinitionModel \<Rightarrow> procedureData \<Rightarrow> ProcedureDefinitionModel" where
  "initEntriesAndExitsForSid this data =
     this\<lparr>entryPoints := data_rwy data, exitPoints := data_exitPoints data\<rparr>"

definition initEntriesAndExitsForStar ::
  "ProcedureDefinitionModel \<Rightarrow> procedureData \<Rightarrow> ProcedureDefinitionModel" where
  "initEntriesAndExitsForStar this data =
     this\<lparr>entryPoints := data_entryPoints data, exitPoints := data_rwy data\<rparr>"

text \<open>
  \<open>init\<close> returns the error it throws, if any, and the object as the call leaves it.
\<close>

definition init ::
  "ProcedureDefinitionModel \<Rightarrow> string \<Rightarrow> procedureData
     \<Rightarrow> error option \<times> ProcedureDefinitionModel" where
  "init this procedureType' data =
     (let this1 = this\<lparr>body := data_body data, draw := data_draw data,
                        icao := data_icao data, name := data_name data,
                        procedureType := procedureType'\<rparr>
      in if procedureType this1 = PROCEDURE_TYPE_SID
           then (None, initEntriesAndExitsForSid this1 data)
         else if procedureType this1 = PROCEDURE_TYPE_STAR
           then (None, initEntriesAndExitsForStar this1 data)
         else (Some (TypeError (''Expected procedure definition with known type, ''
                 @ ''but received unknown type '' @ [CHR 0x27] @ procedureType this1
                 @ [CHR 0x27])), this1))"

definition reset :: "ProcedureDefinitionModel \<Rightarrow> ProcedureDefinitionModel" where
  "reset this =
     this\<lparr>body := [], draw := [], entryPoints := [], exitPoints := [],
          icao := '''', name := '''', procedureType := ''''\<rparr>"

text \<open>
  The constructor: \<open>None\<close> is the argument \<^verbatim>\<open>undefined\<close>. When \<open>init\<close> throws,
  so does the constructor, and no object is made.
\<close>

definition constructor ::
  "string \<Rightarrow> procedureData option \<Rightarrow> error + ProcedureDefinitionModel" where
  "constructor procedureType' data =
     (case data of
        None \<Rightarrow> Inl (TypeError (''Expected valid procedure data, but received ''
                  @ [CHR 0x27] @ ''undefined'' @ [CHR 0x27]))
      | Some d \<Rightarrow>
          (case init \<lparr>body = [], draw = [], entryPoints = [], exitPoints = [],
                      icao = '''', name = '''', procedureType = ''''\<rparr> procedureType' d of
             (Some e, _) \<Rightarrow> Inl e
           | (None, this) \<Rightarrow> Inr this))"

subsection \<open>Fix names\<close>

definition getFixNameFromRestrictedFixArray :: "restrictedFix \<Rightarrow> string option" where
  "getFixNameFromRestrictedFixArray restrictedFix =
     (let restrictedFix0 = (case restrictedFix of
                              FixArray first rest \<Rightarrow> first
                            | FixName fixName \<Rightarrow> fixName)
      in if includesChar CHR ''#'' restrictedFix0 then None
         else Some (replaceWithEmpty CHR ''@'' (replaceWithEmpty CHR ''^'' restrictedFix0)))"

definition getFixNamesFromBody :: "ProcedureDefinitionModel \<Rightarrow> string option list" where
  "getFixNamesFromBody this = lodash_map (Own (body this)) getFixNameFromRestrictedFixArray"

text \<open>
  \<^verbatim>\<open>draw.reduce((fixList, lineSegment) => fixList.concat(lineSegment))\<close> has no initial
  value: it starts from the first element. On an empty array it throws; when the first
  element is a string, the result is a string (\<^verbatim>\<open>String.prototype.concat\<close>) and has no
  \<^verbatim>\<open>map\<close>. \<^verbatim>\<open>Array.prototype.concat\<close> appends the elements of an array, and a string
  as one element.
\<close>

fun concat_item :: "string list \<Rightarrow> drawItem \<Rightarrow> string list" where
  "concat_item fixList (LineSegment lineSegment) = fixList @ lineSegment"
| "concat_item fixList (FlatName fixName) = fixList @ [fixName]"

definition getFixNamesFromDraw :: "ProcedureDefinitionModel \<Rightarrow> error + string list" where
  "getFixNamesFromDraw this =
     (case draw this of
        [] \<Rightarrow> Inl EngineTypeError
      | FlatName fixName # rest \<Rightarrow> Inl EngineTypeError
      | LineSegment first # rest \<Rightarrow>
          (let drawFixNames = foldl concat_item first rest
           in Inr (map (\<lambda>fixName. replaceWithEmpty CHR ''*'' fixName) drawFixNames)))"

definition getFixNamesFromEntries :: "ProcedureDefinitionModel \<Rightarrow> string option list" where
  "getFixNamesFromEntries this =
     uniq (foldl (\<lambda>fixNames segment.
                    fixNames @ lodash_map (Own segment) getFixNameFromRestrictedFixArray)
             [] (forEachValues (entryPoints this)))"

definition getFixNamesFromExits :: "ProcedureDefinitionModel \<Rightarrow> string option list" where
  "getFixNamesFromExits this =
     uniq (foldl (\<lambda>fixNames segment.
                    fixNames @ lodash_map (Own segment) getFixNameFromRestrictedFixArray)
             [] (forEachValues (exitPoints this)))"

definition invalidDrawMessage :: "string \<Rightarrow> string" where
  "invalidDrawMessage icao' =
     ''Invalid data set in draw segment of the '' @ icao' @ '' procedure. Expected a 2D ''
     @ ''array: `[[FIXXA, FIXXB*], [FIXXC, FIXXD*]]`. Please see airport documentation for more information ''
     @ ''(https://github.com/openscope/openscope/blob/develop/documentation/airport-format.md#sids).''"

definition getAllFixNamesInUse :: "ProcedureDefinitionModel \<Rightarrow> error + string option list" where
  "getAllFixNamesInUse this =
     (if \<not> isArray (at (draw this) 0) then Inl (TypeError (invalidDrawMessage (icao this)))
      else
        (let entryFixNames = getFixNamesFromEntries this;
             bodyFixNames = getFixNamesFromBody this;
             exitFixNames = getFixNamesFromExits this
         in case getFixNamesFromDraw this of
              Inl e \<Rightarrow> Inl e
            | Inr drawFixNames \<Rightarrow>
                Inr (uniq (entryFixNames @ bodyFixNames @ exitFixNames
                           @ map Some drawFixNames))))"

subsection \<open>Exit points and waypoints\<close>

text \<open>
  \<open>randomIndex\<close> is the integer that lodash's \<^verbatim>\<open>_random(0, maxIndex)\<close> returns: one
  of \<open>0, \<dots>, maxIndex\<close>, and \<open>-1\<close> or \<open>0\<close> when \<open>maxIndex = -1\<close> (the bounds are
  swapped when the lower one is greater).
\<close>

definition getRandomExitPoint :: "ProcedureDefinitionModel \<Rightarrow> int \<Rightarrow> string option" where
  "getRandomExitPoint this randomIndex =
     (let exitNames = Object_keys (exitPoints this)
      in at exitNames randomIndex)"

definition hasEntry :: "ProcedureDefinitionModel \<Rightarrow> string \<Rightarrow> bool" where
  "hasEntry this entryName = keyIn entryName (entryPoints this)"

definition hasExit :: "ProcedureDefinitionModel \<Rightarrow> string \<Rightarrow> bool" where
  "hasExit this exitName = keyIn exitName (exitPoints this)"

text \<open>
  Modelled from the spec: the class \<^verbatim>\<open>ProcedureWaypointModel\<close> is not among the
  sources; the spec has its constructor take a fix descriptor and give a waypoint. It is
  the parameter \<open>newWaypoint\<close> of the functions below.
\<close>

definition generateWaypointsForBody ::
  "(restrictedFix \<Rightarrow> 'w) \<Rightarrow> ProcedureDefinitionModel \<Rightarrow> 'w list" where
  "generateWaypointsForBody newWaypoint this = lodash_map (Own (body this)) newWaypoint"

definition generateWaypointsForEntry ::
  "(restrictedFix \<Rightarrow> 'w) \<Rightarrow> ProcedureDefinitionModel \<Rightarrow> string \<Rightarrow> error + 'w list" where
  "generateWaypointsForEntry newWaypoint this entryPoint =
     (if \<not> keyIn entryPoint (entryPoints this)
        then Inl (TypeError (''Expected valid entry of '' @ icao this
                    @ '', but received '' @ entryPoint))
      else Inr (lodash_map (property (entryPoints this) entryPoint) newWaypoint))"

definition generateWaypointsForExit ::
  "(restrictedFix \<Rightarrow> 'w) \<Rightarrow> ProcedureDefinitionModel \<Rightarrow> string \<Rightarrow> error + 'w list" where
  "generateWaypointsForExit newWaypoint this exitPoint =
     (if \<not> keyIn exitPoint (exitPoints this)
        then Inl (TypeError (''Expected valid exit of '' @ icao this
                    @ '', but received '' @ exitPoint))
      else Inr (lodash_map (property (exitPoints this) exitPoint) newWaypoint))"

text \<open>
  The result of \<open>getWaypointModelsForEntryAndExit\<close>: the lines written with
  \<^verbatim>\<open>console.error\<close>, and the error thrown or the value returned (\<open>None\<close> for the bare
  \<^verbatim>\<open>return\<close>).
\<close>

definition getWaypointModelsForEntryAndExit ::
  "(restrictedFix \<Rightarrow> 'w) \<Rightarrow> ProcedureDefinitionModel \<Rightarrow> string \<Rightarrow> string
     \<Rightarrow> string list \<times> (error + 'w list option)" where
  "getWaypointModelsForEntryAndExit newWaypoint this entry exit =
     (if \<not> keyIn entry (entryPoints this)
        then ([''Expected valid entry of '' @ icao this @ '', but received '' @ entry],
              Inr None)
      else if \<not> keyIn exit (exitPoints this)
        then ([''Expected valid exit of '' @ icao this @ '', but received '' @ exit],
              Inr None)
      else
        (case generateWaypointsForEntry newWaypoint this entry of
           Inl e \<Rightarrow> ([], Inl e)
         | Inr entryWaypointModels \<Rightarrow>
             (let bodyWaypointModels = generateWaypointsForBody newWaypoint this
              in case generateWaypointsForExit newWaypoint this exit of
                   Inl e \<Rightarrow> ([], Inl e)
                 | Inr exitWaypointModels \<Rightarrow>
                     ([], Inr (Some (entryWaypointModels @ bodyWaypointModels
                                     @ exitWaypointModels))))))"

section \<open>Properties\<close>

subsection \<open>Objects and \<open>_uniq\<close>\<close>

lemma ownKey_property: "ownKey key object \<Longrightarrow> \<exists>v. property object key = Own v"
proof -
  assume "ownKey key object"
  then have "map_of object key \<noteq> None"
    by (simp add: ownKey_def map_of_eq_None_iff)
  then show ?thesis
    by (auto simp: property_def)
qed

lemma ownKey_keyIn: "ownKey key object \<Longrightarrow> keyIn key object"
  by (simp add: keyIn_def)

lemma inherited_property:
  "key \<in> set Object_prototype_names \<Longrightarrow> \<not> ownKey key object \<Longrightarrow>
   keyIn key object \<and> property object key = Inherited"
proof -
  assume i: "key \<in> set Object_prototype_names" and "\<not> ownKey key object"
  then have "map_of object key = None"
    by (simp add: ownKey_def map_of_eq_None_iff)
  with i show ?thesis
    by (simp add: keyIn_def property_def)
qed

lemma set_ownProperties: "set (ownProperties object) = set object"
  by (auto simp: ownProperties_def)

lemma length_ownProperties: "length (ownProperties object) = length object"
  by (simp add: ownProperties_def sum_length_filter_compl)

lemma ownProperties_no_index:
  "\<forall>key \<in> set (map fst object). \<not> isArrayIndex key \<Longrightarrow> ownProperties object = object"
proof -
  assume a: "\<forall>key \<in> set (map fst object). \<not> isArrayIndex key"
  then have "filter (\<lambda>kv. isArrayIndex (fst kv)) object = []"
    by (auto simp: filter_empty_conv)
  moreover from a have "filter (\<lambda>kv. \<not> isArrayIndex (fst kv)) object = object"
    by (auto simp: filter_id_conv)
  ultimately show ?thesis by (simp add: ownProperties_def)
qed

lemma set_forEachValues: "set (forEachValues object) = snd ` set object"
  by (simp add: forEachValues_def set_ownProperties)

text \<open>
  \<open>_uniq\<close> keeps the first occurrence of every value, in order: it is
  \<open>rev \<circ> remdups \<circ> rev\<close>, and it is given by \<open>uniq [] = []\<close> and
  \<open>uniq (x # xs) = x # uniq (filter (\<lambda>y. y \<noteq> x) xs)\<close>.
\<close>

lemma baseUniq_set: "set (baseUniq acc xs) = set acc \<union> set xs"
  by (induction xs arbitrary: acc) auto

lemma baseUniq_distinct: "distinct acc \<Longrightarrow> distinct (baseUniq acc xs)"
  by (induction xs arbitrary: acc) auto

lemma first_occ_Cons: "rev (remdups (rev (x # ys))) = x # rev (remdups (rev (filter (\<lambda>y. y \<noteq> x) ys)))"
proof -
  have "remdups (rev ys @ [x]) = remdups (filter (\<lambda>y. y \<noteq> x) (rev ys)) @ [x]"
    by (induction ys rule: rev_induct) auto
  then show ?thesis by (simp add: rev_filter)
qed

lemma baseUniq_eq: "baseUniq acc xs = acc @ rev (remdups (rev (filter (\<lambda>x. x \<notin> set acc) xs)))"
proof (induction xs arbitrary: acc)
  case Nil
  then show ?case by simp
next
  case (Cons x xs)
  show ?case
  proof (cases "x \<in> set acc")
    case True
    then show ?thesis using Cons.IH [of acc] by simp
  next
    case False
    have "(\<lambda>y. y \<notin> set (acc @ [x])) = (\<lambda>y. y \<notin> set acc \<and> y \<noteq> x)" by auto
    then show ?thesis using False Cons.IH [of "acc @ [x]"]
      by (simp add: first_occ_Cons conj_commute del: rev.simps)
  qed
qed

lemma uniq_first_occ: "uniq xs = rev (remdups (rev xs))"
  by (simp add: uniq_def baseUniq_eq)

lemma set_uniq: "set (uniq xs) = set xs"
  by (simp add: uniq_def baseUniq_set)

lemma distinct_uniq: "distinct (uniq xs)"
  by (simp add: uniq_def baseUniq_distinct)

lemma baseUniq_append: "baseUniq acc (xs @ ys) = baseUniq (baseUniq acc xs) ys"
  by (induction xs arbitrary: acc) auto

lemma uniq_append: "uniq (xs @ ys) = uniq xs @ uniq (filter (\<lambda>y. y \<notin> set xs) ys)"
proof -
  have "uniq (xs @ ys) = baseUniq (uniq xs) ys"
    by (simp add: uniq_def baseUniq_append)
  also have "\<dots> = uniq xs @ rev (remdups (rev (filter (\<lambda>y. y \<notin> set (uniq xs)) ys)))"
    by (rule baseUniq_eq)
  finally show ?thesis by (simp add: set_uniq uniq_first_occ)
qed

lemma uniq_filter: "uniq (filter P xs) = filter P (uniq xs)"
  by (simp add: uniq_first_occ rev_filter remdups_filter)

lemma uniq_idem: "uniq (uniq xs) = uniq xs"
  by (simp add: uniq_first_occ)

lemma uniq_uniq_append: "uniq (uniq xs @ ys) = uniq (xs @ ys)"
  by (simp add: uniq_append [of "uniq xs"] uniq_append [of xs] set_uniq uniq_idem)

lemma uniq_inner: "uniq (ps @ uniq xs @ ys) = uniq (ps @ xs @ ys)"
proof -
  have "uniq (filter P (uniq xs) @ zs) = uniq (filter P xs @ zs)" for P zs
    by (metis uniq_filter uniq_uniq_append)
  then show ?thesis
    by (simp add: uniq_append [of ps])
qed

lemma uniq_Cons: "uniq (x # xs) = x # uniq (filter (\<lambda>y. y \<noteq> x) xs)"
  by (simp add: uniq_first_occ first_occ_Cons del: rev.simps)

subsection \<open>Construction and reset\<close>

text \<open>
  C2. The constructor needs the procedure data: with \<^verbatim>\<open>undefined\<close> it throws the
  \<^verbatim>\<open>TypeError\<close> "Expected valid procedure data, but received 'undefined'". With data
  and the type SID, the object made has \<open>entryPoints = data.rwy\<close> and
  \<open>exitPoints = data.exitPoints\<close>; with the type STAR it has
  \<open>entryPoints = data.entryPoints\<close> and \<open>exitPoints = data.rwy\<close>; the other fields are
  those of the data. With any other type it throws the \<^verbatim>\<open>TypeError\<close> "Expected
  procedure definition with known type, but received unknown type '...'".
\<close>

theorem constructor_entries_and_exits_by_type:
  "constructor procedureType' None
     = Inl (TypeError (''Expected valid procedure data, but received ''
                       @ [CHR 0x27] @ ''undefined'' @ [CHR 0x27]))
   \<and> (procedureType' = PROCEDURE_TYPE_SID \<longrightarrow>
        constructor procedureType' (Some data)
          = Inr \<lparr>body = data_body data, draw = data_draw data,
                 entryPoints = data_rwy data, exitPoints = data_exitPoints data,
                 icao = data_icao data, name = data_name data,
                 procedureType = procedureType'\<rparr>)
   \<and> (procedureType' = PROCEDURE_TYPE_STAR \<longrightarrow>
        constructor procedureType' (Some data)
          = Inr \<lparr>body = data_body data, draw = data_draw data,
                 entryPoints = data_entryPoints data, exitPoints = data_rwy data,
                 icao = data_icao data, name = data_name data,
                 procedureType = procedureType'\<rparr>)
   \<and> (procedureType' \<noteq> PROCEDURE_TYPE_SID \<and> procedureType' \<noteq> PROCEDURE_TYPE_STAR \<longrightarrow>
        constructor procedureType' (Some data)
          = Inl (TypeError (''Expected procedure definition with known type, but received unknown type ''
                            @ [CHR 0x27] @ procedureType' @ [CHR 0x27])))"
proof (intro conjI impI)
  show "constructor procedureType' None
     = Inl (TypeError (''Expected valid procedure data, but received ''
                       @ [CHR 0x27] @ ''undefined'' @ [CHR 0x27]))"
    by (simp add: constructor_def)
next
  assume "procedureType' = PROCEDURE_TYPE_SID"
  then have "init \<lparr>body = [], draw = [], entryPoints = [], exitPoints = [],
                   icao = '''', name = '''', procedureType = ''''\<rparr> procedureType' data
      = (None, \<lparr>body = data_body data, draw = data_draw data,
                 entryPoints = data_rwy data, exitPoints = data_exitPoints data,
                 icao = data_icao data, name = data_name data,
                 procedureType = procedureType'\<rparr>)"
    by (simp add: init_def initEntriesAndExitsForSid_def)
  then show "constructor procedureType' (Some data)
          = Inr \<lparr>body = data_body data, draw = data_draw data,
                 entryPoints = data_rwy data, exitPoints = data_exitPoints data,
                 icao = data_icao data, name = data_name data,
                 procedureType = procedureType'\<rparr>"
    by (simp add: constructor_def)
next
  assume "procedureType' = PROCEDURE_TYPE_STAR"
  then have "init \<lparr>body = [], draw = [], entryPoints = [], exitPoints = [],
                   icao = '''', name = '''', procedureType = ''''\<rparr> procedureType' data
      = (None, \<lparr>body = data_body data, draw = data_draw data,
                 entryPoints = data_entryPoints data, exitPoints = data_rwy data,
                 icao = data_icao data, name = data_name data,
                 procedureType = procedureType'\<rparr>)"
    by (simp add: init_def initEntriesAndExitsForStar_def PROCEDURE_TYPE_SID_def
        PROCEDURE_TYPE_STAR_def)
  then show "constructor procedureType' (Some data)
          = Inr \<lparr>body = data_body data, draw = data_draw data,
                 entryPoints = data_entryPoints data, exitPoints = data_rwy data,
                 icao = data_icao data, name = data_name data,
                 procedureType = procedureType'\<rparr>"
    by (simp add: constructor_def)
next
  assume "procedureType' \<noteq> PROCEDURE_TYPE_SID \<and> procedureType' \<noteq> PROCEDURE_TYPE_STAR"
  then obtain this1 where
    "init \<lparr>body = [], draw = [], entryPoints = [], exitPoints = [],
           icao = '''', name = '''', procedureType = ''''\<rparr> procedureType' data
      = (Some (TypeError (''Expected procedure definition with known type, but received unknown type ''
                            @ [CHR 0x27] @ procedureType' @ [CHR 0x27])), this1)"
    by (simp add: init_def Let_def)
  then show "constructor procedureType' (Some data)
          = Inl (TypeError (''Expected procedure definition with known type, but received unknown type ''
                            @ [CHR 0x27] @ procedureType' @ [CHR 0x27]))"
    by (simp add: constructor_def)
qed

text \<open>The constructor on a SID, on a STAR and on the unknown type IAP.\<close>

theorem constructor_entries_and_exits_by_type_witness:
  "constructor ''SID''
       (Some \<lparr>data_body = [FixName ''C1''], data_draw = [LineSegment [''A1'', ''C1'']],
               data_icao = ''COWBY6'', data_name = ''Cowboy Six'',
               data_rwy = [(''25L'', [FixName ''A1''])], data_entryPoints = [],
               data_exitPoints = [(''NORTH'', [FixName ''B1'', FixName ''B2''])]\<rparr>)
     = Inr \<lparr>body = [FixName ''C1''], draw = [LineSegment [''A1'', ''C1'']],
            entryPoints = [(''25L'', [FixName ''A1''])],
            exitPoints = [(''NORTH'', [FixName ''B1'', FixName ''B2''])],
            icao = ''COWBY6'', name = ''Cowboy Six'', procedureType = ''SID''\<rparr>
   \<and> constructor ''STAR''
       (Some \<lparr>data_body = [FixName ''C1''], data_draw = [LineSegment [''DAG'', ''C1'']],
               data_icao = ''KEPEC6'', data_name = ''Kepec Six'',
               data_rwy = [(''25L'', [FixName ''A1''])],
               data_entryPoints = [(''DAG'', [FixName ''DAG''])], data_exitPoints = []\<rparr>)
     = Inr \<lparr>body = [FixName ''C1''], draw = [LineSegment [''DAG'', ''C1'']],
            entryPoints = [(''DAG'', [FixName ''DAG''])],
            exitPoints = [(''25L'', [FixName ''A1''])],
            icao = ''KEPEC6'', name = ''Kepec Six'', procedureType = ''STAR''\<rparr>
   \<and> constructor ''IAP''
       (Some \<lparr>data_body = [FixName ''C1''], data_draw = [LineSegment [''A1'', ''C1'']],
               data_icao = ''ILS25L'', data_name = ''I L S'',
               data_rwy = [(''25L'', [FixName ''A1''])], data_entryPoints = [],
               data_exitPoints = []\<rparr>)
     = Inl (TypeError (''Expected procedure definition with known type, but received unknown type ''
                       @ [CHR 0x27] @ ''IAP'' @ [CHR 0x27]))"
proof -
  have sid: "''SID'' = PROCEDURE_TYPE_SID" by (simp add: PROCEDURE_TYPE_SID_def)
  have star: "''STAR'' = PROCEDURE_TYPE_STAR" by (simp add: PROCEDURE_TYPE_STAR_def)
  have other: "''IAP'' \<noteq> PROCEDURE_TYPE_SID \<and> ''IAP'' \<noteq> PROCEDURE_TYPE_STAR"
    by (simp add: PROCEDURE_TYPE_SID_def PROCEDURE_TYPE_STAR_def)
  show ?thesis
    using constructor_entries_and_exits_by_type [of "''SID''", THEN conjunct2, THEN conjunct1, rule_format, OF sid]
      constructor_entries_and_exits_by_type [of "''STAR''", THEN conjunct2, THEN conjunct2, THEN conjunct1, rule_format, OF star]
      constructor_entries_and_exits_by_type [of "''IAP''", THEN conjunct2, THEN conjunct2, THEN conjunct2, rule_format, OF other]
    by simp
qed

text \<open>
  C10. When \<open>init\<close> is called with data and a type that is neither SID nor STAR, it
  throws after \<open>body\<close>, \<open>draw\<close>, \<open>icao\<close>, \<open>name\<close> and \<open>procedureType\<close> have been
  assigned from the arguments, while \<open>entryPoints\<close> and \<open>exitPoints\<close> keep the values
  they had before the call: the object is left in a mixed state.
\<close>

theorem init_unknown_type_not_atomic:
  "procedureType' \<noteq> PROCEDURE_TYPE_SID \<and> procedureType' \<noteq> PROCEDURE_TYPE_STAR \<longrightarrow>
     init this procedureType' data
       = (Some (TypeError (''Expected procedure definition with known type, but received unknown type ''
                           @ [CHR 0x27] @ procedureType' @ [CHR 0x27])),
          \<lparr>body = data_body data, draw = data_draw data,
           entryPoints = entryPoints this, exitPoints = exitPoints this,
           icao = data_icao data, name = data_name data, procedureType = procedureType'\<rparr>)"
proof
  assume other: "procedureType' \<noteq> PROCEDURE_TYPE_SID \<and> procedureType' \<noteq> PROCEDURE_TYPE_STAR"
  let ?this1 = "this\<lparr>body := data_body data, draw := data_draw data,
                     icao := data_icao data, name := data_name data,
                     procedureType := procedureType'\<rparr>"
  have assigned: "?this1 = \<lparr>body = data_body data, draw = data_draw data,
                     entryPoints = entryPoints this, exitPoints = exitPoints this,
                     icao = data_icao data, name = data_name data,
                     procedureType = procedureType'\<rparr>"
    by (cases this) simp
  have "init this procedureType' data
       = (Some (TypeError (''Expected procedure definition with known type, but received unknown type ''
                           @ [CHR 0x27] @ procedureType' @ [CHR 0x27])), ?this1)"
    using other by (simp add: init_def Let_def)
  then show "init this procedureType' data
       = (Some (TypeError (''Expected procedure definition with known type, but received unknown type ''
                           @ [CHR 0x27] @ procedureType' @ [CHR 0x27])),
          \<lparr>body = data_body data, draw = data_draw data,
           entryPoints = entryPoints this, exitPoints = exitPoints this,
           icao = data_icao data, name = data_name data, procedureType = procedureType'\<rparr>)"
    by (simp only: assigned)
qed

text \<open>An object made as a STAR and initialised again with the unknown type IAP.\<close>

theorem init_unknown_type_not_atomic_witness:
  "init \<lparr>body = [FixName ''C1''], draw = [LineSegment [''DAG'', ''C1'']],
         entryPoints = [(''DAG'', [FixName ''DAG''])], exitPoints = [(''25L'', [FixName ''A1''])],
         icao = ''KEPEC6'', name = ''Kepec Six'', procedureType = ''STAR''\<rparr>
        ''IAP''
        \<lparr>data_body = [FixName ''JESJI''], data_draw = [LineSegment [''JESJI'', ''LEMNZ'']],
         data_icao = ''ILS25L'', data_name = ''I L S'',
         data_rwy = [(''07R'', [FixName ''LEMNZ''])], data_entryPoints = [],
         data_exitPoints = []\<rparr>
     = (Some (TypeError (''Expected procedure definition with known type, but received unknown type ''
                         @ [CHR 0x27] @ ''IAP'' @ [CHR 0x27])),
        \<lparr>body = [FixName ''JESJI''], draw = [LineSegment [''JESJI'', ''LEMNZ'']],
         entryPoints = [(''DAG'', [FixName ''DAG''])], exitPoints = [(''25L'', [FixName ''A1''])],
         icao = ''ILS25L'', name = ''I L S'', procedureType = ''IAP''\<rparr>)"
proof -
  have other: "''IAP'' \<noteq> PROCEDURE_TYPE_SID \<and> ''IAP'' \<noteq> PROCEDURE_TYPE_STAR"
    by (simp add: PROCEDURE_TYPE_SID_def PROCEDURE_TYPE_STAR_def)
  show ?thesis
    using init_unknown_type_not_atomic [of "''IAP''", rule_format, OF other]
    by simp
qed

text \<open>
  C9. From any state, \<open>reset\<close> leaves every field at its empty default: \<open>[]\<close> for
  \<open>body\<close> and \<open>draw\<close>, \<open>{}\<close> for \<open>entryPoints\<close> and \<open>exitPoints\<close>, \<open>''\<close> for
  \<open>icao\<close>, \<open>name\<close> and \<open>procedureType\<close>; the getters \<open>draw\<close>, \<open>icao\<close>, \<open>name\<close>
  and \<open>procedureType\<close> return these defaults afterwards; resetting twice is resetting
  once.
\<close>

theorem reset_defaults_idempotent:
  "reset this = \<lparr>body = [], draw = [], entryPoints = [], exitPoints = [],
                  icao = '''', name = '''', procedureType = ''''\<rparr>
   \<and> draw (reset this) = [] \<and> icao (reset this) = '''' \<and> name (reset this) = ''''
   \<and> procedureType (reset this) = ''''
   \<and> reset (reset this) = reset this"
proof -
  have defaults: "reset p = \<lparr>body = [], draw = [], entryPoints = [], exitPoints = [],
                              icao = '''', name = '''', procedureType = ''''\<rparr>" for p
    by (cases p) (simp add: reset_def)
  have twice: "reset (reset this) = reset this"
    by (simp only: defaults)
  from twice show ?thesis
    by (simp add: defaults [of this])
qed

subsection \<open>Waypoints for an entry and an exit\<close>

text \<open>
  C1. For every entry that is a key of \<open>entryPoints\<close> and every exit that is a key of
  \<open>exitPoints\<close>, \<open>getWaypointModelsForEntryAndExit\<close> writes nothing to the console,
  throws nothing and returns the waypoints made from the fixes of the entry's segment,
  then from every fix of the body, then from the fixes of the exit's segment, each by the
  waypoint constructor and in order; the length of the result is the sum of the three
  lengths. For the SID made from
  \<^verbatim>\<open>{rwy: {"25L": ["A1"]}, exitPoints: {"NORTH": ["B1","B2"]}, body: ["C1"]}\<close> the call
  with \<^verbatim>\<open>("25L", "NORTH")\<close> gives the waypoints of A1, C1, B1, B2.
\<close>

theorem waypoints_entry_body_exit:
  fixes newWaypoint :: "restrictedFix \<Rightarrow> 'w"
  shows
  "(\<forall>this entry exit.
      ownKey entry (entryPoints this) \<and> ownKey exit (exitPoints this) \<longrightarrow>
      (\<exists>entrySeq exitSeq.
         property (entryPoints this) entry = Own entrySeq
         \<and> property (exitPoints this) exit = Own exitSeq
         \<and> getWaypointModelsForEntryAndExit newWaypoint this entry exit
             = ([], Inr (Some (map newWaypoint entrySeq @ map newWaypoint (body this)
                               @ map newWaypoint exitSeq)))
         \<and> length (map newWaypoint entrySeq @ map newWaypoint (body this)
                    @ map newWaypoint exitSeq)
             = length entrySeq + length (body this) + length exitSeq))
   \<and> (\<forall>data.
      data_rwy data = [(''25L'', [FixName ''A1''])]
      \<and> data_exitPoints data = [(''NORTH'', [FixName ''B1'', FixName ''B2''])]
      \<and> data_body data = [FixName ''C1''] \<longrightarrow>
      (\<exists>this. constructor PROCEDURE_TYPE_SID (Some data) = Inr this
         \<and> getWaypointModelsForEntryAndExit newWaypoint this ''25L'' ''NORTH''
             = ([], Inr (Some [newWaypoint (FixName ''A1''), newWaypoint (FixName ''C1''),
                               newWaypoint (FixName ''B1''), newWaypoint (FixName ''B2'')]))))"
proof (intro conjI allI impI)
  fix this :: ProcedureDefinitionModel and entry exit
  assume keys: "ownKey entry (entryPoints this) \<and> ownKey exit (exitPoints this)"
  then obtain entrySeq exitSeq where
    seqs: "property (entryPoints this) entry = Own entrySeq"
          "property (exitPoints this) exit = Own exitSeq"
    using ownKey_property by blast
  have "getWaypointModelsForEntryAndExit newWaypoint this entry exit
          = ([], Inr (Some (map newWaypoint entrySeq @ map newWaypoint (body this)
                            @ map newWaypoint exitSeq)))"
    using keys seqs
    by (simp add: getWaypointModelsForEntryAndExit_def generateWaypointsForEntry_def
        generateWaypointsForExit_def generateWaypointsForBody_def ownKey_keyIn)
  with seqs show "\<exists>entrySeq exitSeq.
         property (entryPoints this) entry = Own entrySeq
         \<and> property (exitPoints this) exit = Own exitSeq
         \<and> getWaypointModelsForEntryAndExit newWaypoint this entry exit
             = ([], Inr (Some (map newWaypoint entrySeq @ map newWaypoint (body this)
                               @ map newWaypoint exitSeq)))
         \<and> length (map newWaypoint entrySeq @ map newWaypoint (body this)
                    @ map newWaypoint exitSeq)
             = length entrySeq + length (body this) + length exitSeq"
    by simp
next
  fix data :: procedureData
  assume d: "data_rwy data = [(''25L'', [FixName ''A1''])]
      \<and> data_exitPoints data = [(''NORTH'', [FixName ''B1'', FixName ''B2''])]
      \<and> data_body data = [FixName ''C1'']"
  let ?obj = "\<lparr>body = data_body data, draw = data_draw data, entryPoints = data_rwy data,
                exitPoints = data_exitPoints data, icao = data_icao data,
                name = data_name data, procedureType = PROCEDURE_TYPE_SID\<rparr>"
  have c: "constructor PROCEDURE_TYPE_SID (Some data) = Inr ?obj"
    by (simp add: constructor_def init_def initEntriesAndExitsForSid_def)
  have "getWaypointModelsForEntryAndExit newWaypoint ?obj ''25L'' ''NORTH''
             = ([], Inr (Some [newWaypoint (FixName ''A1''), newWaypoint (FixName ''C1''),
                               newWaypoint (FixName ''B1''), newWaypoint (FixName ''B2'')]))"
    using d
    by (simp add: getWaypointModelsForEntryAndExit_def generateWaypointsForEntry_def
        generateWaypointsForExit_def generateWaypointsForBody_def keyIn_def ownKey_def
        property_def)
  with c show "\<exists>this. constructor PROCEDURE_TYPE_SID (Some data) = Inr this
         \<and> getWaypointModelsForEntryAndExit newWaypoint this ''25L'' ''NORTH''
             = ([], Inr (Some [newWaypoint (FixName ''A1''), newWaypoint (FixName ''C1''),
                               newWaypoint (FixName ''B1''), newWaypoint (FixName ''B2'')]))"
    by blast
qed

text \<open>
  The theorem at a STAR with two entries and a restricted fix in the body, the waypoint
  constructor being the identity.
\<close>

theorem waypoints_entry_body_exit_witness:
  "ownKey ''MISEN'' [(''KEPEC'', [FixName ''KEPEC'']), (''MISEN'', [FixName ''MISEN'', FixName ''CLARR''])]
   \<and> ownKey ''25L'' [(''25L'', [FixArray ''RELIN'' [''A80'']])]
   \<and> getWaypointModelsForEntryAndExit (\<lambda>restrictedFix. restrictedFix)
        \<lparr>body = [FixArray ''SKEBR'' [''A130|S250'']], draw = [LineSegment [''MISEN'', ''SKEBR'']],
         entryPoints = [(''KEPEC'', [FixName ''KEPEC'']),
                        (''MISEN'', [FixName ''MISEN'', FixName ''CLARR''])],
         exitPoints = [(''25L'', [FixArray ''RELIN'' [''A80'']])],
         icao = ''KEPEC6'', name = ''Kepec Six'', procedureType = ''STAR''\<rparr>
        ''MISEN'' ''25L''
      = ([], Inr (Some [FixName ''MISEN'', FixName ''CLARR'', FixArray ''SKEBR'' [''A130|S250''],
                        FixArray ''RELIN'' [''A80'']]))"
proof -
  let ?obj = "\<lparr>body = [FixArray ''SKEBR'' [''A130|S250'']],
                draw = [LineSegment [''MISEN'', ''SKEBR'']],
                entryPoints = [(''KEPEC'', [FixName ''KEPEC'']),
                               (''MISEN'', [FixName ''MISEN'', FixName ''CLARR''])],
                exitPoints = [(''25L'', [FixArray ''RELIN'' [''A80'']])],
                icao = ''KEPEC6'', name = ''Kepec Six'', procedureType = ''STAR''\<rparr>"
  have k: "ownKey ''MISEN'' (entryPoints ?obj) \<and> ownKey ''25L'' (exitPoints ?obj)"
    by (simp add: ownKey_def)
  from waypoints_entry_body_exit [where 'w = restrictedFix, THEN conjunct1, rule_format, OF k]
  obtain entrySeq exitSeq where
    "property (entryPoints ?obj) ''MISEN'' = Own entrySeq"
    "property (exitPoints ?obj) ''25L'' = Own exitSeq"
    "getWaypointModelsForEntryAndExit (\<lambda>restrictedFix. restrictedFix) ?obj ''MISEN'' ''25L''
       = ([], Inr (Some (map (\<lambda>restrictedFix. restrictedFix) entrySeq
                         @ map (\<lambda>restrictedFix. restrictedFix) (body ?obj)
                         @ map (\<lambda>restrictedFix. restrictedFix) exitSeq)))"
    by blast
  then show ?thesis using k by (simp add: property_def)
qed

text \<open>
  Where the test \<^verbatim>\<open>key in object\<close> fails, the public method reports and the private
  generators throw: a missing entry gives one console line that names the procedure and
  the entry, the value \<^verbatim>\<open>undefined\<close> and no exception; a missing exit, the entry
  passing the test, gives the same with the exit; the generators throw a
  \<^verbatim>\<open>TypeError\<close> with the same message.
\<close>

lemma key_test_fails_reported_or_thrown:
  fixes newWaypoint :: "restrictedFix \<Rightarrow> 'w"
  shows
  "(\<not> keyIn entry (entryPoints this) \<longrightarrow>
      getWaypointModelsForEntryAndExit newWaypoint this entry exit
        = ([''Expected valid entry of '' @ icao this @ '', but received '' @ entry], Inr None))
   \<and> (keyIn entry (entryPoints this) \<and> \<not> keyIn exit (exitPoints this) \<longrightarrow>
      getWaypointModelsForEntryAndExit newWaypoint this entry exit
        = ([''Expected valid exit of '' @ icao this @ '', but received '' @ exit], Inr None))
   \<and> (\<not> keyIn entry (entryPoints this) \<longrightarrow>
      generateWaypointsForEntry newWaypoint this entry
        = Inl (TypeError (''Expected valid entry of '' @ icao this @ '', but received '' @ entry)))
   \<and> (\<not> keyIn exit (exitPoints this) \<longrightarrow>
      generateWaypointsForExit newWaypoint this exit
        = Inl (TypeError (''Expected valid exit of '' @ icao this @ '', but received '' @ exit)))"
proof (intro conjI impI)
  assume "\<not> keyIn entry (entryPoints this)"
  then show "getWaypointModelsForEntryAndExit newWaypoint this entry exit
        = ([''Expected valid entry of '' @ icao this @ '', but received '' @ entry], Inr None)"
    and "generateWaypointsForEntry newWaypoint this entry
        = Inl (TypeError (''Expected valid entry of '' @ icao this @ '', but received '' @ entry))"
    by (simp_all add: getWaypointModelsForEntryAndExit_def generateWaypointsForEntry_def)
next
  assume "keyIn entry (entryPoints this) \<and> \<not> keyIn exit (exitPoints this)"
  then show "getWaypointModelsForEntryAndExit newWaypoint this entry exit
        = ([''Expected valid exit of '' @ icao this @ '', but received '' @ exit], Inr None)"
    by (simp add: getWaypointModelsForEntryAndExit_def)
next
  assume "\<not> keyIn exit (exitPoints this)"
  then show "generateWaypointsForExit newWaypoint this exit
        = Inl (TypeError (''Expected valid exit of '' @ icao this @ '', but received '' @ exit))"
    by (simp add: generateWaypointsForExit_def)
qed

text \<open>
  C4. The claim is that for every entry that is not a key of \<open>entryPoints\<close>, and for
  every exit that is not a key of \<open>exitPoints\<close>, \<open>getWaypointModelsForEntryAndExit\<close>
  reports the key and returns no result, and that the private generators throw. The
  code tests with \<^verbatim>\<open>in\<close>, which also holds for the names every object inherits from
  \<^verbatim>\<open>Object.prototype\<close>. For such a name that is not a key of \<open>entryPoints\<close> (the exit
  being a key of \<open>exitPoints\<close>) the method writes nothing to the console and returns the
  waypoints of the body and the exit; for such a name that is not a key of
  \<open>exitPoints\<close> (the entry being a key) it returns the waypoints of the entry and the
  body; and the private generators return the empty array instead of throwing.
\<close>

theorem inherited_name_passes_key_test:
  fixes newWaypoint :: "restrictedFix \<Rightarrow> 'w"
  shows
  "(inherited \<in> set Object_prototype_names \<and> \<not> ownKey inherited (entryPoints this)
      \<and> ownKey exit (exitPoints this) \<longrightarrow>
      (\<exists>exitSeq. property (exitPoints this) exit = Own exitSeq
         \<and> getWaypointModelsForEntryAndExit newWaypoint this inherited exit
             = ([], Inr (Some (map newWaypoint (body this) @ map newWaypoint exitSeq)))))
   \<and> (inherited \<in> set Object_prototype_names \<and> \<not> ownKey inherited (exitPoints this)
      \<and> ownKey entry (entryPoints this) \<longrightarrow>
      (\<exists>entrySeq. property (entryPoints this) entry = Own entrySeq
         \<and> getWaypointModelsForEntryAndExit newWaypoint this entry inherited
             = ([], Inr (Some (map newWaypoint entrySeq @ map newWaypoint (body this))))))
   \<and> (inherited \<in> set Object_prototype_names \<and> \<not> ownKey inherited (entryPoints this) \<longrightarrow>
      generateWaypointsForEntry newWaypoint this inherited = Inr [])
   \<and> (inherited \<in> set Object_prototype_names \<and> \<not> ownKey inherited (exitPoints this) \<longrightarrow>
      generateWaypointsForExit newWaypoint this inherited = Inr [])"
proof (intro conjI impI)
  assume a: "inherited \<in> set Object_prototype_names \<and> \<not> ownKey inherited (entryPoints this)
      \<and> ownKey exit (exitPoints this)"
  then have i: "keyIn inherited (entryPoints this)
      \<and> property (entryPoints this) inherited = Inherited"
    by (simp add: inherited_property)
  from a obtain exitSeq where x: "property (exitPoints this) exit = Own exitSeq"
    using ownKey_property by blast
  from a have k: "keyIn exit (exitPoints this)" by (simp add: ownKey_keyIn)
  have "getWaypointModelsForEntryAndExit newWaypoint this inherited exit
          = ([], Inr (Some (map newWaypoint (body this) @ map newWaypoint exitSeq)))"
    using i x k
    by (simp add: getWaypointModelsForEntryAndExit_def generateWaypointsForEntry_def
        generateWaypointsForExit_def generateWaypointsForBody_def)
  with x show "\<exists>exitSeq. property (exitPoints this) exit = Own exitSeq
         \<and> getWaypointModelsForEntryAndExit newWaypoint this inherited exit
             = ([], Inr (Some (map newWaypoint (body this) @ map newWaypoint exitSeq)))"
    by blast
next
  assume a: "inherited \<in> set Object_prototype_names \<and> \<not> ownKey inherited (exitPoints this)
      \<and> ownKey entry (entryPoints this)"
  then have i: "keyIn inherited (exitPoints this)
      \<and> property (exitPoints this) inherited = Inherited"
    by (simp add: inherited_property)
  from a obtain entrySeq where e: "property (entryPoints this) entry = Own entrySeq"
    using ownKey_property by blast
  from a have k: "keyIn entry (entryPoints this)" by (simp add: ownKey_keyIn)
  have "getWaypointModelsForEntryAndExit newWaypoint this entry inherited
          = ([], Inr (Some (map newWaypoint entrySeq @ map newWaypoint (body this))))"
    using i e k
    by (simp add: getWaypointModelsForEntryAndExit_def generateWaypointsForEntry_def
        generateWaypointsForExit_def generateWaypointsForBody_def)
  with e show "\<exists>entrySeq. property (entryPoints this) entry = Own entrySeq
         \<and> getWaypointModelsForEntryAndExit newWaypoint this entry inherited
             = ([], Inr (Some (map newWaypoint entrySeq @ map newWaypoint (body this))))"
    by blast
next
  assume "inherited \<in> set Object_prototype_names \<and> \<not> ownKey inherited (entryPoints this)"
  then have "keyIn inherited (entryPoints this)
      \<and> property (entryPoints this) inherited = Inherited"
    by (simp add: inherited_property)
  then show "generateWaypointsForEntry newWaypoint this inherited = Inr []"
    by (simp add: generateWaypointsForEntry_def)
next
  assume "inherited \<in> set Object_prototype_names \<and> \<not> ownKey inherited (exitPoints this)"
  then have "keyIn inherited (exitPoints this)
      \<and> property (exitPoints this) inherited = Inherited"
    by (simp add: inherited_property)
  then show "generateWaypointsForExit newWaypoint this inherited = Inr []"
    by (simp add: generateWaypointsForExit_def)
qed

text \<open>
  A STAR asked for the entry \<^verbatim>\<open>toString\<close>, which it does not have: nothing is
  reported, and the waypoints of the body and of the exit 25L are returned; its private
  generators, asked for \<^verbatim>\<open>toString\<close> and \<^verbatim>\<open>constructor\<close>, return \<^verbatim>\<open>[]\<close>.
\<close>

theorem inherited_name_passes_key_test_witness:
  "\<not> ownKey ''toString'' [(''DAG'', [FixName ''DAG''])]
   \<and> getWaypointModelsForEntryAndExit (\<lambda>restrictedFix. restrictedFix)
        \<lparr>body = [FixName ''C1''], draw = [LineSegment [''DAG'', ''C1'']],
         entryPoints = [(''DAG'', [FixName ''DAG''])],
         exitPoints = [(''25L'', [FixName ''A1''])],
         icao = ''KEPEC6'', name = ''Kepec Six'', procedureType = ''STAR''\<rparr> ''toString'' ''25L''
       = ([], Inr (Some [FixName ''C1'', FixName ''A1'']))
   \<and> generateWaypointsForEntry (\<lambda>restrictedFix. restrictedFix)
        \<lparr>body = [FixName ''C1''], draw = [LineSegment [''DAG'', ''C1'']],
         entryPoints = [(''DAG'', [FixName ''DAG''])],
         exitPoints = [(''25L'', [FixName ''A1''])],
         icao = ''KEPEC6'', name = ''Kepec Six'', procedureType = ''STAR''\<rparr> ''toString''
       = Inr []
   \<and> \<not> ownKey ''constructor'' [(''25L'', [FixName ''A1''])]
   \<and> generateWaypointsForExit (\<lambda>restrictedFix. restrictedFix)
        \<lparr>body = [FixName ''C1''], draw = [LineSegment [''DAG'', ''C1'']],
         entryPoints = [(''DAG'', [FixName ''DAG''])],
         exitPoints = [(''25L'', [FixName ''A1''])],
         icao = ''KEPEC6'', name = ''Kepec Six'', procedureType = ''STAR''\<rparr> ''constructor''
       = Inr []"
proof -
  let ?obj = "\<lparr>body = [FixName ''C1''], draw = [LineSegment [''DAG'', ''C1'']],
         entryPoints = [(''DAG'', [FixName ''DAG''])],
         exitPoints = [(''25L'', [FixName ''A1''])],
         icao = ''KEPEC6'', name = ''Kepec Six'', procedureType = ''STAR''\<rparr>"
  have e: "''toString'' \<in> set Object_prototype_names
      \<and> \<not> ownKey ''toString'' (entryPoints ?obj) \<and> ownKey ''25L'' (exitPoints ?obj)"
    by (simp add: Object_prototype_names_def ownKey_def)
  have g: "''toString'' \<in> set Object_prototype_names
      \<and> \<not> ownKey ''toString'' (entryPoints ?obj)"
    using e by simp
  have x: "''constructor'' \<in> set Object_prototype_names
      \<and> \<not> ownKey ''constructor'' (exitPoints ?obj)"
    by (simp add: Object_prototype_names_def ownKey_def)
  note t = inherited_name_passes_key_test [where 'w = restrictedFix and this = ?obj
      and newWaypoint = "\<lambda>restrictedFix. restrictedFix"]
  from t [of "''toString''" "''25L''", THEN conjunct1, THEN mp, OF e]
  obtain exitSeq where
    "property (exitPoints ?obj) ''25L'' = Own exitSeq"
    "getWaypointModelsForEntryAndExit (\<lambda>restrictedFix. restrictedFix) ?obj ''toString'' ''25L''
       = ([], Inr (Some (map (\<lambda>restrictedFix. restrictedFix) (body ?obj)
                         @ map (\<lambda>restrictedFix. restrictedFix) exitSeq)))"
    by (elim exE conjE)
  then have w: "getWaypointModelsForEntryAndExit (\<lambda>restrictedFix. restrictedFix) ?obj
                  ''toString'' ''25L''
       = ([], Inr (Some [FixName ''C1'', FixName ''A1'']))"
    by (simp add: property_def)
  from t [of "''toString''", THEN conjunct2, THEN conjunct2, THEN conjunct1, THEN mp, OF g]
    t [of "''constructor''", THEN conjunct2, THEN conjunct2, THEN conjunct2, THEN mp, OF x]
    w e x
  show ?thesis by simp
qed

subsection \<open>Fix names\<close>

lemma foldl_concat_segments:
  "foldl (\<lambda>fixNames segment. fixNames @ g segment) acc segments = acc @ concat (map g segments)"
  by (induction segments arbitrary: acc) auto

lemma foldl_concat_item:
  "foldl concat_item fixList items = fixList @ concat (map (concat_item []) items)"
proof (induction items arbitrary: fixList)
  case Nil
  then show ?case by simp
next
  case (Cons item items)
  then show ?case by (cases item) simp_all
qed

lemma getFixNamesFromEntries_eq:
  "getFixNamesFromEntries this
     = uniq (concat (map (map getFixNameFromRestrictedFixArray) (forEachValues (entryPoints this))))"
  by (simp add: getFixNamesFromEntries_def foldl_concat_segments)

lemma getFixNamesFromExits_eq:
  "getFixNamesFromExits this
     = uniq (concat (map (map getFixNameFromRestrictedFixArray) (forEachValues (exitPoints this))))"
  by (simp add: getFixNamesFromExits_def foldl_concat_segments)

lemma getFixNamesFromDraw_eq:
  "draw this = LineSegment first # rest \<Longrightarrow>
   getFixNamesFromDraw this
     = Inr (map (remove1 CHR ''*'') (first @ concat (map (concat_item []) rest)))"
  by (simp add: getFixNamesFromDraw_def foldl_concat_item replaceWithEmpty_def)

lemma getAllFixNamesInUse_eq:
  assumes "draw this = LineSegment first # rest"
  shows "getAllFixNamesInUse this
     = Inr (uniq (uniq (concat (map (map getFixNameFromRestrictedFixArray)
                                  (forEachValues (entryPoints this))))
                  @ map getFixNameFromRestrictedFixArray (body this)
                  @ uniq (concat (map (map getFixNameFromRestrictedFixArray)
                                    (forEachValues (exitPoints this))))
                  @ map (\<lambda>fixName. Some (remove1 CHR ''*'' fixName))
                      (first @ concat (map (concat_item []) rest))))"
proof -
  have "isArray (at (draw this) 0)" using assms by (simp add: at_def)
  then show ?thesis
    using getFixNamesFromDraw_eq [OF assms]
    by (simp add: getAllFixNamesInUse_def getFixNamesFromEntries_eq getFixNamesFromExits_eq
        getFixNamesFromBody_def comp_def del: map_append)
qed

lemma remove1_filter_once: "count_list s c \<le> 1 \<Longrightarrow> remove1 c s = filter (\<lambda>x. x \<noteq> c) s"
proof (induction s)
  case Nil
  then show ?case by simp
next
  case (Cons a s)
  show ?case
  proof (cases "a = c")
    case True
    with Cons.prems have "count_list s c = 0" by simp
    then have "c \<notin> set s" by (simp add: count_list_0_iff)
    then have "filter (\<lambda>x. x \<noteq> c) s = s" by (auto simp: filter_id_conv)
    with True show ?thesis by simp
  next
    case False
    with Cons show ?thesis by simp
  qed
qed

lemma count_list_filter_le: "count_list (filter P s) c \<le> count_list s c"
  by (induction s) auto

lemma remove1_twice_filter:
  assumes "count_list s a \<le> 1" "count_list s b \<le> 1"
  shows "remove1 b (remove1 a s) = filter (\<lambda>x. x \<noteq> a \<and> x \<noteq> b) s"
proof -
  have "remove1 a s = filter (\<lambda>x. x \<noteq> a) s"
    using assms(1) by (rule remove1_filter_once)
  moreover have "count_list (filter (\<lambda>x. x \<noteq> a) s) b \<le> 1"
    using count_list_filter_le [of "\<lambda>x. x \<noteq> a" s b] assms(2) by simp
  ultimately show ?thesis
    by (simp add: remove1_filter_once conj_commute)
qed

lemma getFixName_hash:
  "CHR ''#'' \<in> set fixName \<Longrightarrow>
   getFixNameFromRestrictedFixArray (FixName fixName) = None
   \<and> getFixNameFromRestrictedFixArray (FixArray fixName restriction) = None"
  by (simp add: getFixNameFromRestrictedFixArray_def includesChar_def)

lemma getFixName_no_hash:
  "CHR ''#'' \<notin> set fixName \<Longrightarrow>
   getFixNameFromRestrictedFixArray (FixName fixName)
     = Some (remove1 CHR ''@'' (remove1 CHR ''^'' fixName))
   \<and> getFixNameFromRestrictedFixArray (FixArray fixName restriction)
     = Some (remove1 CHR ''@'' (remove1 CHR ''^'' fixName))"
  by (simp add: getFixNameFromRestrictedFixArray_def includesChar_def replaceWithEmpty_def)

lemma uniq_map_Some: "uniq (map Some xs) = map Some (uniq xs)"
proof -
  have "remdups (map Some ys) = map Some (remdups ys)" for ys :: "'a list"
    by (induction ys) auto
  then show ?thesis
    by (simp add: uniq_first_occ rev_map)
qed

lemma map_getFixName_no_hash:
  assumes "\<forall>restrictedFix \<in> set fixList.
     CHR ''#'' \<notin> set (case restrictedFix of FixName fixName \<Rightarrow> fixName
                           | FixArray fixName restriction \<Rightarrow> fixName)"
  shows "map getFixNameFromRestrictedFixArray fixList
     = map Some (map (\<lambda>restrictedFix. remove1 CHR ''@'' (remove1 CHR ''^''
         (case restrictedFix of FixName fixName \<Rightarrow> fixName
          | FixArray fixName restriction \<Rightarrow> fixName))) fixList)"
  using assms
proof (induction fixList)
  case Nil
  then show ?case by simp
next
  case (Cons restrictedFix fixList)
  then show ?case
    by (cases restrictedFix) (simp_all add: getFixName_no_hash)
qed

lemma concat_map_getFixName:
  "concat (map (map f) segments) = map f (concat segments)"
  by (simp add: map_concat)

lemma concat_line_segments:
  "concat (map (concat_item []) (map LineSegment segments)) = concat segments"
  by (induction segments) simp_all

text \<open>
  C6. When the first element of \<open>draw\<close> is not an array (\<open>draw\<close> is empty, or it
  begins with a string as the flat \<^verbatim>\<open>["FIXA","FIXB"]\<close> does), \<open>getAllFixNamesInUse\<close>
  throws a \<^verbatim>\<open>TypeError\<close> whose message names the \<open>icao\<close> of the procedure, and
  returns no fix names.
\<close>

theorem malformed_draw_throws:
  "(\<forall>first rest. draw this \<noteq> LineSegment first # rest) \<longrightarrow>
     getAllFixNamesInUse this
       = Inl (TypeError (''Invalid data set in draw segment of the '' @ icao this
           @ '' procedure. Expected a 2D array: `[[FIXXA, FIXXB*], [FIXXC, FIXXD*]]`. Please see airport documentation for more information (https://github.com/openscope/openscope/blob/develop/documentation/airport-format.md#sids).''))"
proof
  assume a: "\<forall>first rest. draw this \<noteq> LineSegment first # rest"
  have "\<not> isArray (at (draw this) 0)"
  proof (cases "draw this")
    case Nil
    then show ?thesis by (simp add: at_def)
  next
    case (Cons item rest)
    with a show ?thesis by (cases item) (simp_all add: at_def)
  qed
  then show "getAllFixNamesInUse this
       = Inl (TypeError (''Invalid data set in draw segment of the '' @ icao this
           @ '' procedure. Expected a 2D array: `[[FIXXA, FIXXB*], [FIXXC, FIXXD*]]`. Please see airport documentation for more information (https://github.com/openscope/openscope/blob/develop/documentation/airport-format.md#sids).''))"
    by (simp add: getAllFixNamesInUse_def invalidDrawMessage_def)
qed

text \<open>A flat \<open>draw\<close> and an empty \<open>draw\<close>.\<close>

theorem malformed_draw_throws_witness:
  "getAllFixNamesInUse
     \<lparr>body = [FixName ''C1''], draw = [FlatName ''FIXA'', FlatName ''FIXB''],
      entryPoints = [(''DAG'', [FixName ''DAG''])], exitPoints = [(''25L'', [FixName ''A1''])],
      icao = ''KEPEC6'', name = ''Kepec Six'', procedureType = ''STAR''\<rparr>
     = Inl (TypeError ''Invalid data set in draw segment of the KEPEC6 procedure. Expected a 2D array: `[[FIXXA, FIXXB*], [FIXXC, FIXXD*]]`. Please see airport documentation for more information (https://github.com/openscope/openscope/blob/develop/documentation/airport-format.md#sids).'')
   \<and> getAllFixNamesInUse
     \<lparr>body = [FixName ''C1''], draw = [],
      entryPoints = [(''DAG'', [FixName ''DAG''])], exitPoints = [(''25L'', [FixName ''A1''])],
      icao = ''KEPEC6'', name = ''Kepec Six'', procedureType = ''STAR''\<rparr>
     = Inl (TypeError ''Invalid data set in draw segment of the KEPEC6 procedure. Expected a 2D array: `[[FIXXA, FIXXB*], [FIXXC, FIXXD*]]`. Please see airport documentation for more information (https://github.com/openscope/openscope/blob/develop/documentation/airport-format.md#sids).'')"
proof -
  let ?flat = "\<lparr>body = [FixName ''C1''], draw = [FlatName ''FIXA'', FlatName ''FIXB''],
      entryPoints = [(''DAG'', [FixName ''DAG''])], exitPoints = [(''25L'', [FixName ''A1''])],
      icao = ''KEPEC6'', name = ''Kepec Six'', procedureType = ''STAR''\<rparr>"
  let ?empty = "\<lparr>body = [FixName ''C1''], draw = [],
      entryPoints = [(''DAG'', [FixName ''DAG''])], exitPoints = [(''25L'', [FixName ''A1''])],
      icao = ''KEPEC6'', name = ''Kepec Six'', procedureType = ''STAR''\<rparr>"
  have f: "\<forall>first rest. draw ?flat \<noteq> LineSegment first # rest" by simp
  have e: "\<forall>first rest. draw ?empty \<noteq> LineSegment first # rest" by simp
  show ?thesis
    using malformed_draw_throws [of ?flat, THEN mp, OF f]
      malformed_draw_throws [of ?empty, THEN mp, OF e]
    by simp
qed

text \<open>
  C5 (amended). When \<open>draw\<close> is an array of arrays, not empty, and no fix of the
  body, of an entry or of an exit has a \<open>#\<close> in its name, \<open>getAllFixNamesInUse\<close>
  returns an array of strings. It collects (1) the names of the fixes of every entry
  segment, over all keys, with duplicates removed within this step, (2) the names of the
  fixes of the body, (3) the names of the fixes of every exit segment, over all keys, with
  duplicates removed within this step, (4) every string of every \<open>draw\<close> segment
  without its first \<open>*\<close>; a name of (1) to (3) is the string, or the first element of
  the array, without its first \<open>^\<close> and its first \<open>@\<close>. The result is the
  concatenation of the four steps where only the first occurrence of each name is kept
  (\<open>rev \<circ> remdups \<circ> rev\<close>), with or without the removals inside the steps; it has no
  duplicates and holds exactly the names of the four steps.
\<close>

theorem all_fix_names_order_and_dedup:
  "draw this = map LineSegment segments \<and> segments \<noteq> []
   \<and> (\<forall>restrictedFix \<in> set (body this)
          \<union> (\<Union>segment \<in> snd ` set (entryPoints this). set segment)
          \<union> (\<Union>segment \<in> snd ` set (exitPoints this). set segment).
        CHR ''#'' \<notin> set (case restrictedFix of FixName fixName \<Rightarrow> fixName
                              | FixArray fixName restriction \<Rightarrow> fixName))
   \<longrightarrow>
     (let bareName = (\<lambda>restrictedFix. remove1 CHR ''@'' (remove1 CHR ''^''
                         (case restrictedFix of FixName fixName \<Rightarrow> fixName
                          | FixArray fixName restriction \<Rightarrow> fixName)));
          entryNames = map bareName (concat (forEachValues (entryPoints this)));
          bodyNames = map bareName (body this);
          exitNames = map bareName (concat (forEachValues (exitPoints this)));
          drawNames = map (remove1 CHR ''*'') (concat segments)
      in \<exists>names.
           getAllFixNamesInUse this = Inr (map Some names)
           \<and> names = rev (remdups (rev (rev (remdups (rev entryNames)) @ bodyNames
                                         @ rev (remdups (rev exitNames)) @ drawNames)))
           \<and> names = rev (remdups (rev (entryNames @ bodyNames @ exitNames @ drawNames)))
           \<and> distinct names
           \<and> set names = set entryNames \<union> set bodyNames \<union> set exitNames \<union> set drawNames
           \<and> set (concat (forEachValues (entryPoints this)))
               = (\<Union>segment \<in> snd ` set (entryPoints this). set segment)
           \<and> set (concat (forEachValues (exitPoints this)))
               = (\<Union>segment \<in> snd ` set (exitPoints this). set segment))"
proof
  assume a: "draw this = map LineSegment segments \<and> segments \<noteq> []
   \<and> (\<forall>restrictedFix \<in> set (body this)
          \<union> (\<Union>segment \<in> snd ` set (entryPoints this). set segment)
          \<union> (\<Union>segment \<in> snd ` set (exitPoints this). set segment).
        CHR ''#'' \<notin> set (case restrictedFix of FixName fixName \<Rightarrow> fixName
                              | FixArray fixName restriction \<Rightarrow> fixName))"
  define bareName where "bareName = (\<lambda>restrictedFix. remove1 CHR ''@'' (remove1 CHR ''^''
                         (case restrictedFix of FixName fixName \<Rightarrow> fixName
                          | FixArray fixName restriction \<Rightarrow> fixName)))"
  define entryNames where "entryNames = map bareName (concat (forEachValues (entryPoints this)))"
  define bodyNames where "bodyNames = map bareName (body this)"
  define exitNames where "exitNames = map bareName (concat (forEachValues (exitPoints this)))"
  define drawNames where "drawNames = map (remove1 CHR ''*'') (concat segments)"
  define names where "names = uniq (uniq entryNames @ bodyNames @ uniq exitNames @ drawNames)"
  from a obtain first others where s: "segments = first # others"
    by (cases segments) auto
  with a have d: "draw this = LineSegment first # map LineSegment others" by simp
  have se: "set (concat (forEachValues (entryPoints this)))
               = (\<Union>segment \<in> snd ` set (entryPoints this). set segment)"
    by (simp add: set_forEachValues)
  have sx: "set (concat (forEachValues (exitPoints this)))
               = (\<Union>segment \<in> snd ` set (exitPoints this). set segment)"
    by (simp add: set_forEachValues)
  have e: "concat (map (map getFixNameFromRestrictedFixArray) (forEachValues (entryPoints this)))
      = map Some entryNames"
    unfolding entryNames_def bareName_def concat_map_getFixName
    by (rule map_getFixName_no_hash) (use a se in auto)
  have x: "concat (map (map getFixNameFromRestrictedFixArray) (forEachValues (exitPoints this)))
      = map Some exitNames"
    unfolding exitNames_def bareName_def concat_map_getFixName
    by (rule map_getFixName_no_hash) (use a sx in auto)
  have b: "map getFixNameFromRestrictedFixArray (body this) = map Some bodyNames"
    unfolding bodyNames_def bareName_def
    by (rule map_getFixName_no_hash) (use a in auto)
  have w: "map (\<lambda>fixName. Some (remove1 CHR ''*'' fixName))
             (first @ concat (map (concat_item []) (map LineSegment others)))
      = map Some drawNames"
    unfolding concat_line_segments drawNames_def s by simp
  have "getAllFixNamesInUse this
      = Inr (uniq (uniq (map Some entryNames) @ map Some bodyNames
                   @ uniq (map Some exitNames) @ map Some drawNames))"
    unfolding getAllFixNamesInUse_eq [OF d] e x b w by (rule refl)
  also have "uniq (uniq (map Some entryNames) @ map Some bodyNames
                   @ uniq (map Some exitNames) @ map Some drawNames) = map Some names"
    by (simp add: names_def uniq_map_Some flip: map_append)
  finally have r: "getAllFixNamesInUse this = Inr (map Some names)" .
  have n1: "names = rev (remdups (rev (rev (remdups (rev entryNames)) @ bodyNames
                                         @ rev (remdups (rev exitNames)) @ drawNames)))"
    by (simp only: names_def uniq_first_occ)
  have "uniq (uniq entryNames @ bodyNames @ uniq exitNames @ drawNames)
          = uniq (entryNames @ bodyNames @ uniq exitNames @ drawNames)"
    by (rule uniq_uniq_append)
  also have "\<dots> = uniq ((entryNames @ bodyNames) @ uniq exitNames @ drawNames)"
    by simp
  also have "\<dots> = uniq ((entryNames @ bodyNames) @ exitNames @ drawNames)"
    by (rule uniq_inner)
  finally have n2: "names = rev (remdups (rev (entryNames @ bodyNames @ exitNames @ drawNames)))"
    by (simp add: names_def uniq_first_occ)
  have n3: "distinct names" by (simp add: names_def distinct_uniq)
  have n4: "set names = set entryNames \<union> set bodyNames \<union> set exitNames \<union> set drawNames"
    by (auto simp: names_def set_uniq)
  from r n1 n2 n3 n4 se sx
  have "\<exists>names.
           getAllFixNamesInUse this = Inr (map Some names)
           \<and> names = rev (remdups (rev (rev (remdups (rev entryNames)) @ bodyNames
                                         @ rev (remdups (rev exitNames)) @ drawNames)))
           \<and> names = rev (remdups (rev (entryNames @ bodyNames @ exitNames @ drawNames)))
           \<and> distinct names
           \<and> set names = set entryNames \<union> set bodyNames \<union> set exitNames \<union> set drawNames
           \<and> set (concat (forEachValues (entryPoints this)))
               = (\<Union>segment \<in> snd ` set (entryPoints this). set segment)
           \<and> set (concat (forEachValues (exitPoints this)))
               = (\<Union>segment \<in> snd ` set (exitPoints this). set segment)"
    by (intro exI [of _ names] conjI)
  then show "let bareName = (\<lambda>restrictedFix. remove1 CHR ''@'' (remove1 CHR ''^''
                         (case restrictedFix of FixName fixName \<Rightarrow> fixName
                          | FixArray fixName restriction \<Rightarrow> fixName)));
          entryNames = map bareName (concat (forEachValues (entryPoints this)));
          bodyNames = map bareName (body this);
          exitNames = map bareName (concat (forEachValues (exitPoints this)));
          drawNames = map (remove1 CHR ''*'') (concat segments)
      in \<exists>names.
           getAllFixNamesInUse this = Inr (map Some names)
           \<and> names = rev (remdups (rev (rev (remdups (rev entryNames)) @ bodyNames
                                         @ rev (remdups (rev exitNames)) @ drawNames)))
           \<and> names = rev (remdups (rev (entryNames @ bodyNames @ exitNames @ drawNames)))
           \<and> distinct names
           \<and> set names = set entryNames \<union> set bodyNames \<union> set exitNames \<union> set drawNames
           \<and> set (concat (forEachValues (entryPoints this)))
               = (\<Union>segment \<in> snd ` set (entryPoints this). set segment)
           \<and> set (concat (forEachValues (exitPoints this)))
               = (\<Union>segment \<in> snd ` set (exitPoints this). set segment)"
    unfolding Let_def entryNames_def bodyNames_def exitNames_def drawNames_def bareName_def .
qed

text \<open>
  A SID whose fix names repeat within the entries, between segments and in \<open>draw\<close>.
\<close>

theorem all_fix_names_order_and_dedup_witness:
  "getAllFixNamesInUse
     \<lparr>body = [FixArray ''ROPPR'' [''A70''], FixName ''MDDOG''],
      draw = [LineSegment [''RBELL'', ''ROPPR'', ''MDDOG*''], LineSegment [''MDDOG'', ''TARRK'']],
      entryPoints = [(''25L'', [FixName ''^RBELL'', FixName ''ROPPR'']),
                     (''07R'', [FixName ''RBELL''])],
      exitPoints = [(''TARRK'', [FixName ''MDDOG'', FixName ''TARRK''])],
      icao = ''COWBY6'', name = ''Cowboy Six'', procedureType = ''SID''\<rparr>
     = Inr [Some ''RBELL'', Some ''ROPPR'', Some ''MDDOG'', Some ''TARRK'']
   \<and> distinct [''RBELL'', ''ROPPR'', ''MDDOG'', ''TARRK'']"
proof -
  let ?obj = "\<lparr>body = [FixArray ''ROPPR'' [''A70''], FixName ''MDDOG''],
      draw = [LineSegment [''RBELL'', ''ROPPR'', ''MDDOG*''], LineSegment [''MDDOG'', ''TARRK'']],
      entryPoints = [(''25L'', [FixName ''^RBELL'', FixName ''ROPPR'']),
                     (''07R'', [FixName ''RBELL''])],
      exitPoints = [(''TARRK'', [FixName ''MDDOG'', FixName ''TARRK''])],
      icao = ''COWBY6'', name = ''Cowboy Six'', procedureType = ''SID''\<rparr>"
  let ?segments = "[[''RBELL'', ''ROPPR'', ''MDDOG*''], [''MDDOG'', ''TARRK'']]"
  let ?bareName = "\<lambda>restrictedFix. remove1 CHR ''@'' (remove1 CHR ''^''
                         (case restrictedFix of FixName fixName \<Rightarrow> fixName
                          | FixArray fixName restriction \<Rightarrow> fixName))"
  have h: "draw ?obj = map LineSegment ?segments \<and> ?segments \<noteq> []
   \<and> (\<forall>restrictedFix \<in> set (body ?obj)
          \<union> (\<Union>segment \<in> snd ` set (entryPoints ?obj). set segment)
          \<union> (\<Union>segment \<in> snd ` set (exitPoints ?obj). set segment).
        CHR ''#'' \<notin> set (case restrictedFix of FixName fixName \<Rightarrow> fixName
                              | FixArray fixName restriction \<Rightarrow> fixName))"
    by simp
  have v: "forEachValues [(''25L'', [FixName ''^RBELL'', FixName ''ROPPR'']),
                          (''07R'', [FixName ''RBELL''])]
             = [[FixName ''^RBELL'', FixName ''ROPPR''], [FixName ''RBELL'']]"
          "forEachValues [(''TARRK'', [FixName ''MDDOG'', FixName ''TARRK''])]
             = [[FixName ''MDDOG'', FixName ''TARRK'']]"
    by (simp_all add: forEachValues_def ownProperties_def isArrayIndex_def isDigit_def)
  have e: "rev (remdups (rev
          (map ?bareName (concat (forEachValues (entryPoints ?obj)))
           @ map ?bareName (body ?obj)
           @ map ?bareName (concat (forEachValues (exitPoints ?obj)))
           @ map (remove1 CHR ''*'') (concat ?segments))))
     = [''RBELL'', ''ROPPR'', ''MDDOG'', ''TARRK'']"
    by (simp add: v)
  note t = all_fix_names_order_and_dedup [of ?obj ?segments, THEN mp, OF h, unfolded Let_def]
  from t obtain names where
    n: "getAllFixNamesInUse ?obj = Inr (map Some names)"
       "names = rev (remdups (rev
          (map ?bareName (concat (forEachValues (entryPoints ?obj)))
           @ map ?bareName (body ?obj)
           @ map ?bareName (concat (forEachValues (exitPoints ?obj)))
           @ map (remove1 CHR ''*'') (concat ?segments))))"
       "distinct names"
    by (elim exE conjE)
  from n(1) n(3) show ?thesis unfolding n(2) e by simp
qed

text \<open>
  The claim as stated, that step (4) takes the \<open>draw\<close> tokens with \<open>*\<close> stripped, fails
  for a token with two \<open>*\<close>: \<^verbatim>\<open>'*C1*'.replace('*', '')\<close> is \<^verbatim>\<open>'C1*'\<close>, which stays in
  the result beside \<^verbatim>\<open>'C1'\<close>.
\<close>

theorem all_fix_names_star_left_counterexample:
  "getAllFixNamesInUse
     \<lparr>body = [FixName ''C1''], draw = [LineSegment [''A1'', ''*C1*'', ''C1'', ''B1'']],
      entryPoints = [(''25L'', [FixName ''A1''])],
      exitPoints = [(''NORTH'', [FixName ''B1''])],
      icao = ''COWBY6'', name = ''Cowboy Six'', procedureType = ''SID''\<rparr>
     = Inr [Some ''A1'', Some ''C1'', Some ''B1'', Some ''C1*'']
   \<and> getAllFixNamesInUse
     \<lparr>body = [FixName ''C1''], draw = [LineSegment [''A1'', ''*C1*'', ''C1'', ''B1'']],
      entryPoints = [(''25L'', [FixName ''A1''])],
      exitPoints = [(''NORTH'', [FixName ''B1''])],
      icao = ''COWBY6'', name = ''Cowboy Six'', procedureType = ''SID''\<rparr>
     \<noteq> Inr (map Some (rev (remdups (rev
           ([''A1''] @ [''C1''] @ [''B1'']
            @ map (filter (\<lambda>c. c \<noteq> CHR ''*'')) [''A1'', ''*C1*'', ''C1'', ''B1''])))))"
proof -
  have v: "forEachValues [(''25L'', [FixName ''A1''])] = [[FixName ''A1'']]"
          "forEachValues [(''NORTH'', [FixName ''B1''])] = [[FixName ''B1'']]"
    by (simp_all add: forEachValues_def ownProperties_def isArrayIndex_def isDigit_def)
  have "getAllFixNamesInUse
     \<lparr>body = [FixName ''C1''], draw = [LineSegment [''A1'', ''*C1*'', ''C1'', ''B1'']],
      entryPoints = [(''25L'', [FixName ''A1''])],
      exitPoints = [(''NORTH'', [FixName ''B1''])],
      icao = ''COWBY6'', name = ''Cowboy Six'', procedureType = ''SID''\<rparr>
     = Inr [Some ''A1'', Some ''C1'', Some ''B1'', Some ''C1*'']"
    by (simp add: getAllFixNamesInUse_def at_def getFixNamesFromEntries_def
        getFixNamesFromExits_def getFixNamesFromBody_def getFixNamesFromDraw_def v uniq_def
        getFixNameFromRestrictedFixArray_def includesChar_def replaceWithEmpty_def)
  then show ?thesis by simp
qed

text \<open>
  C3. The claim is that a fix whose name contains \<open>#\<close> contributes no element to the
  result of \<open>getAllFixNamesInUse\<close>. The code does otherwise:
  \<open>_getFixNameFromRestrictedFixArray\<close> returns \<^verbatim>\<open>undefined\<close> for such a fix,
  \<^verbatim>\<open>_map\<close> keeps that value, and so, whenever \<open>draw\<close> is well formed and such a fix
  stands in the body or in a segment of an entry or an exit, the array returned has the
  element \<^verbatim>\<open>undefined\<close> (here \<open>None\<close>), against the documented
  \<^verbatim>\<open>@return {array<string>}\<close>.
\<close>

theorem hash_fix_leaves_undefined_element:
  "draw this = LineSegment first # rest
   \<and> CHR ''#'' \<in> set fixName
   \<and> (restrictedFix = FixName fixName \<or> restrictedFix = FixArray fixName restriction)
   \<and> (restrictedFix \<in> set (body this)
        \<or> (\<exists>segment \<in> snd ` set (entryPoints this). restrictedFix \<in> set segment)
        \<or> (\<exists>segment \<in> snd ` set (exitPoints this). restrictedFix \<in> set segment))
   \<longrightarrow> getFixNameFromRestrictedFixArray restrictedFix = None
       \<and> (\<exists>names. getAllFixNamesInUse this = Inr names \<and> None \<in> set names)"
proof
  assume a: "draw this = LineSegment first # rest
   \<and> CHR ''#'' \<in> set fixName
   \<and> (restrictedFix = FixName fixName \<or> restrictedFix = FixArray fixName restriction)
   \<and> (restrictedFix \<in> set (body this)
        \<or> (\<exists>segment \<in> snd ` set (entryPoints this). restrictedFix \<in> set segment)
        \<or> (\<exists>segment \<in> snd ` set (exitPoints this). restrictedFix \<in> set segment))"
  then have n: "getFixNameFromRestrictedFixArray restrictedFix = None"
    using getFixName_hash [of fixName restriction] by auto
  from a have d: "draw this = LineSegment first # rest" by simp
  from a have "restrictedFix \<in> set (body this)
        \<or> (\<exists>segment \<in> snd ` set (entryPoints this). restrictedFix \<in> set segment)
        \<or> (\<exists>segment \<in> snd ` set (exitPoints this). restrictedFix \<in> set segment)" by simp
  then have "\<exists>names. getAllFixNamesInUse this = Inr names \<and> None \<in> set names"
  proof (elim disjE bexE)
    assume "restrictedFix \<in> set (body this)"
    with n have "None \<in> getFixNameFromRestrictedFixArray ` set (body this)"
      by (metis imageI)
    then show ?thesis
      by (simp add: getAllFixNamesInUse_eq [OF d] set_uniq)
  next
    fix segment
    assume "segment \<in> snd ` set (entryPoints this)" "restrictedFix \<in> set segment"
    with n have "None \<in> (\<Union>segment \<in> snd ` set (entryPoints this).
                            getFixNameFromRestrictedFixArray ` set segment)"
      by (metis UN_I imageI)
    then show ?thesis
      by (simp add: getAllFixNamesInUse_eq [OF d] set_uniq set_forEachValues)
  next
    fix segment
    assume "segment \<in> snd ` set (exitPoints this)" "restrictedFix \<in> set segment"
    with n have "None \<in> (\<Union>segment \<in> snd ` set (exitPoints this).
                            getFixNameFromRestrictedFixArray ` set segment)"
      by (metis UN_I imageI)
    then show ?thesis
      by (simp add: getAllFixNamesInUse_eq [OF d] set_uniq set_forEachValues)
  qed
  with n show "getFixNameFromRestrictedFixArray restrictedFix = None
       \<and> (\<exists>names. getAllFixNamesInUse this = Inr names \<and> None \<in> set names)"
    by simp
qed

text \<open>
  A SID whose runway segment ends with the heading instruction \<^verbatim>\<open>#320\<close>: the array
  returned is \<^verbatim>\<open>['RBELL', undefined, 'ROPPR', 'TARRK']\<close>.
\<close>

theorem hash_fix_leaves_undefined_element_witness:
  "getAllFixNamesInUse
     \<lparr>body = [FixName ''ROPPR''], draw = [LineSegment [''RBELL'', ''ROPPR'', ''TARRK'']],
      entryPoints = [(''25R'', [FixName ''RBELL'', FixName ''#320''])],
      exitPoints = [(''TARRK'', [FixName ''TARRK''])],
      icao = ''COWBY6'', name = ''Cowboy Six'', procedureType = ''SID''\<rparr>
     = Inr [Some ''RBELL'', None, Some ''ROPPR'', Some ''TARRK'']
   \<and> getFixNameFromRestrictedFixArray (FixName ''#320'') = None
   \<and> (\<exists>names. getAllFixNamesInUse
     \<lparr>body = [FixName ''ROPPR''], draw = [LineSegment [''RBELL'', ''ROPPR'', ''TARRK'']],
      entryPoints = [(''25R'', [FixName ''RBELL'', FixName ''#320''])],
      exitPoints = [(''TARRK'', [FixName ''TARRK''])],
      icao = ''COWBY6'', name = ''Cowboy Six'', procedureType = ''SID''\<rparr> = Inr names
       \<and> None \<in> set names)"
proof -
  let ?obj = "\<lparr>body = [FixName ''ROPPR''], draw = [LineSegment [''RBELL'', ''ROPPR'', ''TARRK'']],
      entryPoints = [(''25R'', [FixName ''RBELL'', FixName ''#320''])],
      exitPoints = [(''TARRK'', [FixName ''TARRK''])],
      icao = ''COWBY6'', name = ''Cowboy Six'', procedureType = ''SID''\<rparr>"
  have h: "draw ?obj = LineSegment [''RBELL'', ''ROPPR'', ''TARRK''] # []
     \<and> CHR ''#'' \<in> set ''#320''
     \<and> (FixName ''#320'' = FixName ''#320'' \<or> FixName ''#320'' = FixArray ''#320'' [])
     \<and> (FixName ''#320'' \<in> set (body ?obj)
          \<or> (\<exists>segment \<in> snd ` set (entryPoints ?obj). FixName ''#320'' \<in> set segment)
          \<or> (\<exists>segment \<in> snd ` set (exitPoints ?obj). FixName ''#320'' \<in> set segment))"
    by simp
  have v: "forEachValues [(''25R'', [FixName ''RBELL'', FixName ''#320''])]
             = [[FixName ''RBELL'', FixName ''#320'']]"
          "forEachValues [(''TARRK'', [FixName ''TARRK''])] = [[FixName ''TARRK'']]"
    by (simp_all add: forEachValues_def ownProperties_def isArrayIndex_def isDigit_def)
  have e: "getAllFixNamesInUse ?obj = Inr [Some ''RBELL'', None, Some ''ROPPR'', Some ''TARRK'']"
    by (simp add: getAllFixNamesInUse_def at_def getFixNamesFromEntries_def
        getFixNamesFromExits_def getFixNamesFromBody_def getFixNamesFromDraw_def v uniq_def
        getFixNameFromRestrictedFixArray_def includesChar_def replaceWithEmpty_def)
  from hash_fix_leaves_undefined_element [THEN mp, OF h] e show ?thesis by simp
qed

text \<open>
  C7 (amended). For a fix whose name (the string itself, or the first element of the
  array) has no \<open>#\<close>, \<open>_getFixNameFromRestrictedFixArray\<close> returns the name without
  its first \<open>^\<close> and then without its first \<open>@\<close>; when the name has at most one
  \<open>^\<close> and at most one \<open>@\<close>, that is the name without any \<open>^\<close> or \<open>@\<close>
  (\<^verbatim>\<open>'^FIXA'\<close> gives \<^verbatim>\<open>'FIXA'\<close>, \<^verbatim>\<open>'@FIXB'\<close> gives \<^verbatim>\<open>'FIXB'\<close>). For a well
  formed \<open>draw\<close>, \<open>_getFixNamesFromDraw\<close> returns every name of \<open>draw\<close> without its
  first \<open>*\<close>; a name whose only \<open>*\<close> is the last character loses it
  (\<^verbatim>\<open>'FIXC*'\<close> gives \<^verbatim>\<open>'FIXC'\<close>).
\<close>

theorem bare_name_removes_first_occurrences:
  "(CHR ''#'' \<notin> set fixName \<longrightarrow>
      getFixNameFromRestrictedFixArray (FixName fixName)
        = Some (remove1 CHR ''@'' (remove1 CHR ''^'' fixName))
      \<and> getFixNameFromRestrictedFixArray (FixArray fixName restriction)
        = Some (remove1 CHR ''@'' (remove1 CHR ''^'' fixName)))
   \<and> (CHR ''#'' \<notin> set fixName \<and> count_list fixName CHR ''^'' \<le> 1
        \<and> count_list fixName CHR ''@'' \<le> 1 \<longrightarrow>
      getFixNameFromRestrictedFixArray (FixName fixName)
        = Some (filter (\<lambda>c. c \<noteq> CHR ''^'' \<and> c \<noteq> CHR ''@'') fixName)
      \<and> getFixNameFromRestrictedFixArray (FixArray fixName restriction)
        = Some (filter (\<lambda>c. c \<noteq> CHR ''^'' \<and> c \<noteq> CHR ''@'') fixName))
   \<and> getFixNameFromRestrictedFixArray (FixName ''^FIXA'') = Some ''FIXA''
   \<and> getFixNameFromRestrictedFixArray (FixName ''@FIXB'') = Some ''FIXB''
   \<and> (draw this = LineSegment first # rest \<longrightarrow>
      getFixNamesFromDraw this
        = Inr (map (remove1 CHR ''*'') (first @ concat (map (concat_item []) rest))))
   \<and> (CHR ''*'' \<notin> set token \<longrightarrow> replaceWithEmpty CHR ''*'' (token @ ''*'') = token)
   \<and> replaceWithEmpty CHR ''*'' ''FIXC*'' = ''FIXC''"
proof (intro conjI impI)
  assume "CHR ''#'' \<notin> set fixName"
  then show "getFixNameFromRestrictedFixArray (FixName fixName)
        = Some (remove1 CHR ''@'' (remove1 CHR ''^'' fixName))"
    and "getFixNameFromRestrictedFixArray (FixArray fixName restriction)
        = Some (remove1 CHR ''@'' (remove1 CHR ''^'' fixName))"
    using getFixName_no_hash by blast+
next
  assume a: "CHR ''#'' \<notin> set fixName \<and> count_list fixName CHR ''^'' \<le> 1
        \<and> count_list fixName CHR ''@'' \<le> 1"
  then have "remove1 CHR ''@'' (remove1 CHR ''^'' fixName)
      = filter (\<lambda>c. c \<noteq> CHR ''^'' \<and> c \<noteq> CHR ''@'') fixName"
    by (simp add: remove1_twice_filter)
  with a show "getFixNameFromRestrictedFixArray (FixName fixName)
        = Some (filter (\<lambda>c. c \<noteq> CHR ''^'' \<and> c \<noteq> CHR ''@'') fixName)"
    and "getFixNameFromRestrictedFixArray (FixArray fixName restriction)
        = Some (filter (\<lambda>c. c \<noteq> CHR ''^'' \<and> c \<noteq> CHR ''@'') fixName)"
    using getFixName_no_hash [of fixName restriction] by simp_all
next
  show "getFixNameFromRestrictedFixArray (FixName ''^FIXA'') = Some ''FIXA''"
    by (simp add: getFixNameFromRestrictedFixArray_def includesChar_def replaceWithEmpty_def)
  show "getFixNameFromRestrictedFixArray (FixName ''@FIXB'') = Some ''FIXB''"
    by (simp add: getFixNameFromRestrictedFixArray_def includesChar_def replaceWithEmpty_def)
  show "replaceWithEmpty CHR ''*'' ''FIXC*'' = ''FIXC''"
    by (simp add: replaceWithEmpty_def)
next
  assume "draw this = LineSegment first # rest"
  then show "getFixNamesFromDraw this
        = Inr (map (remove1 CHR ''*'') (first @ concat (map (concat_item []) rest)))"
    by (rule getFixNamesFromDraw_eq)
next
  assume "CHR ''*'' \<notin> set token"
  then show "replaceWithEmpty CHR ''*'' (token @ ''*'') = token"
    by (simp add: replaceWithEmpty_def remove1_append)
qed

text \<open>The rule on a restricted fix with both marks, and on a \<open>draw\<close> of two lines.\<close>

theorem bare_name_removes_first_occurrences_witness:
  "getFixNameFromRestrictedFixArray (FixArray ''^@FIXA'' [''A100|S250'']) = Some ''FIXA''
   \<and> getFixNameFromRestrictedFixArray (FixName ''@FIXB'') = Some ''FIXB''
   \<and> getFixNamesFromDraw
       \<lparr>body = [], draw = [LineSegment [''FIXA'', ''FIXC*''], LineSegment [''FIXC'', ''FIXD'']],
        entryPoints = [], exitPoints = [], icao = ''X'', name = ''X'', procedureType = ''SID''\<rparr>
       = Inr [''FIXA'', ''FIXC'', ''FIXC'', ''FIXD'']
   \<and> replaceWithEmpty CHR ''*'' (''FIXC'' @ ''*'') = ''FIXC''"
proof -
  let ?obj = "\<lparr>body = [], draw = [LineSegment [''FIXA'', ''FIXC*''], LineSegment [''FIXC'', ''FIXD'']],
        entryPoints = [], exitPoints = [], icao = ''X'', name = ''X'', procedureType = ''SID''\<rparr>"
  have h1: "CHR ''#'' \<notin> set ''^@FIXA'' \<and> count_list ''^@FIXA'' CHR ''^'' \<le> 1
        \<and> count_list ''^@FIXA'' CHR ''@'' \<le> 1" by simp
  have h2: "CHR ''#'' \<notin> set ''@FIXB''" by simp
  have h3: "draw ?obj = LineSegment [''FIXA'', ''FIXC*''] # [LineSegment [''FIXC'', ''FIXD'']]"
    by simp
  have h4: "CHR ''*'' \<notin> set ''FIXC''" by simp
  note t = bare_name_removes_first_occurrences
  from t [of "''^@FIXA''" "[''A100|S250'']", THEN conjunct2, THEN conjunct1, THEN mp, OF h1]
    t [of "''@FIXB''", THEN conjunct1, THEN mp, OF h2]
    t [of _ _ ?obj, THEN conjunct2, THEN conjunct2, THEN conjunct2, THEN conjunct2,
       THEN conjunct1, THEN mp, OF h3]
    t [of _ _ _ _ _ "''FIXC''", THEN conjunct2, THEN conjunct2, THEN conjunct2, THEN conjunct2,
       THEN conjunct2, THEN conjunct1, THEN mp, OF h4]
  show ?thesis by simp
qed

text \<open>
  The claim as stated, that every \<open>^\<close> and \<open>@\<close> is stripped and that the trailing
  \<open>*\<close> is stripped, fails: \<^verbatim>\<open>'^^FIXA'.replace('^', '')\<close> is \<^verbatim>\<open>'^FIXA'\<close>,
  \<^verbatim>\<open>'FIXC**'.replace('*', '')\<close> is \<^verbatim>\<open>'FIXC*'\<close>, and
  \<^verbatim>\<open>'*FIXC*'.replace('*', '')\<close> is \<^verbatim>\<open>'FIXC*'\<close>, with its trailing \<open>*\<close>.
\<close>

theorem bare_name_all_occurrences_counterexample:
  "getFixNameFromRestrictedFixArray (FixName ''^^FIXA'') = Some ''^FIXA''
   \<and> getFixNameFromRestrictedFixArray (FixName ''^^FIXA'')
       \<noteq> Some (filter (\<lambda>c. c \<noteq> CHR ''^'' \<and> c \<noteq> CHR ''@'') ''^^FIXA'')
   \<and> getFixNamesFromDraw \<lparr>body = [], draw = [LineSegment [''FIXC**'']], entryPoints = [],
        exitPoints = [], icao = ''X'', name = ''X'', procedureType = ''SID''\<rparr>
       = Inr [''FIXC*'']
   \<and> getFixNamesFromDraw \<lparr>body = [], draw = [LineSegment [''*FIXC*'']], entryPoints = [],
        exitPoints = [], icao = ''X'', name = ''X'', procedureType = ''SID''\<rparr>
       = Inr [''FIXC*'']"
  by (simp add: getFixNameFromRestrictedFixArray_def includesChar_def replaceWithEmpty_def
      getFixNamesFromDraw_def)

subsection \<open>A random exit point\<close>

text \<open>
  C8 (amended). When \<open>exitPoints\<close> is not empty and the random integer is in
  \<open>[0, keyCount - 1]\<close>, \<open>getRandomExitPoint\<close> returns a key of \<open>exitPoints\<close>: the key at
  that index of \<^verbatim>\<open>Object.keys(exitPoints)\<close>. \<open>keyCount\<close> is the number of properties,
  and \<^verbatim>\<open>Object.keys\<close> lists the keys in insertion order when none of them is an array
  index. When \<open>exitPoints\<close> is empty, the method returns \<^verbatim>\<open>undefined\<close> for every
  random integer and throws nothing.
\<close>

theorem random_exit_point_is_a_key:
  "(exitPoints this \<noteq> [] \<and> 0 \<le> randomIndex
      \<and> randomIndex \<le> int (length (Object_keys (exitPoints this))) - 1 \<longrightarrow>
      getRandomExitPoint this randomIndex
        = Some (Object_keys (exitPoints this) ! nat randomIndex)
      \<and> ownKey (Object_keys (exitPoints this) ! nat randomIndex) (exitPoints this))
   \<and> length (Object_keys (exitPoints this)) = length (exitPoints this)
   \<and> ((\<forall>key \<in> set (map fst (exitPoints this)). \<not> isArrayIndex key) \<longrightarrow>
      Object_keys (exitPoints this) = map fst (exitPoints this))
   \<and> (exitPoints this = [] \<longrightarrow> getRandomExitPoint this randomIndex = None)"
proof (intro conjI impI)
  assume a: "exitPoints this \<noteq> [] \<and> 0 \<le> randomIndex
      \<and> randomIndex \<le> int (length (Object_keys (exitPoints this))) - 1"
  then have i: "nat randomIndex < length (Object_keys (exitPoints this))" by auto
  with a show "getRandomExitPoint this randomIndex
        = Some (Object_keys (exitPoints this) ! nat randomIndex)"
    by (simp add: getRandomExitPoint_def at_def)
  have "set (Object_keys (exitPoints this)) = set (map fst (exitPoints this))"
    by (simp add: Object_keys_def set_ownProperties)
  with i show "ownKey (Object_keys (exitPoints this) ! nat randomIndex) (exitPoints this)"
    unfolding ownKey_def by (metis nth_mem)
next
  show "length (Object_keys (exitPoints this)) = length (exitPoints this)"
    by (simp add: Object_keys_def length_ownProperties)
next
  assume "\<forall>key \<in> set (map fst (exitPoints this)). \<not> isArrayIndex key"
  then show "Object_keys (exitPoints this) = map fst (exitPoints this)"
    by (simp add: Object_keys_def ownProperties_no_index)
next
  assume "exitPoints this = []"
  then show "getRandomExitPoint this randomIndex = None"
    by (simp add: getRandomExitPoint_def at_def Object_keys_def ownProperties_def)
qed

text \<open>
  A STAR with the runways 27 and 9, a SID with the exits NORTH and SOUTH, and an object
  without exits.
\<close>

theorem random_exit_point_is_a_key_witness:
  "getRandomExitPoint
     \<lparr>body = [], draw = [LineSegment [''DAG'', ''MISEN'']],
      entryPoints = [(''DAG'', [FixName ''DAG'', FixName ''MISEN''])],
      exitPoints = [(''27'', [FixName ''RELIN'']), (''9'', [FixName ''PRINO''])],
      icao = ''KEPEC6'', name = ''Kepec Six'', procedureType = ''STAR''\<rparr> 1 = Some ''27''
   \<and> ownKey ''27'' [(''27'', [FixName ''RELIN'']), (''9'', [FixName ''PRINO''])]
   \<and> Object_keys [(''NORTH'', [FixName ''B1'']), (''SOUTH'', [FixName ''B2''])]
       = [''NORTH'', ''SOUTH'']
   \<and> getRandomExitPoint
     \<lparr>body = [], draw = [], entryPoints = [], exitPoints = [],
      icao = '''', name = '''', procedureType = ''''\<rparr> (- 1) = None"
proof -
  let ?star = "\<lparr>body = [], draw = [LineSegment [''DAG'', ''MISEN'']],
      entryPoints = [(''DAG'', [FixName ''DAG'', FixName ''MISEN''])],
      exitPoints = [(''27'', [FixName ''RELIN'']), (''9'', [FixName ''PRINO''])],
      icao = ''KEPEC6'', name = ''Kepec Six'', procedureType = ''STAR''\<rparr>"
  let ?sid = "\<lparr>body = [], draw = [],
      entryPoints = [],
      exitPoints = [(''NORTH'', [FixName ''B1'']), (''SOUTH'', [FixName ''B2''])],
      icao = '''', name = '''', procedureType = ''SID''\<rparr>"
  let ?empty = "\<lparr>body = [], draw = [], entryPoints = [], exitPoints = [],
      icao = '''', name = '''', procedureType = ''''\<rparr>"
  have k: "Object_keys [(''27'', [FixName ''RELIN'']), (''9'', [FixName ''PRINO''])]
      = [''9'', ''27'']"
    by (simp add: Object_keys_def ownProperties_def isArrayIndex_def isDigit_def digitsToInt_def)
  have h1: "exitPoints ?star \<noteq> [] \<and> (0::int) \<le> 1
      \<and> 1 \<le> int (length (Object_keys (exitPoints ?star))) - 1"
    by (simp add: k)
  have h2: "\<forall>key \<in> set (map fst (exitPoints ?sid)). \<not> isArrayIndex key"
    by (simp add: isArrayIndex_def isDigit_def)
  have h3: "exitPoints ?empty = []" by simp
  note a = random_exit_point_is_a_key [of ?star 1, THEN conjunct1, rule_format, OF h1]
  note b = random_exit_point_is_a_key [of ?sid 0, THEN conjunct2, THEN conjunct2, THEN conjunct1, THEN mp, OF h2]
  note c = random_exit_point_is_a_key [of ?empty "- 1", THEN conjunct2, THEN conjunct2, THEN conjunct2, rule_format, OF h3]
  from a b c show ?thesis by (simp add: k)
qed

text \<open>
  The claim as stated, that the key returned is the one at that index in insertion order,
  fails when a key is an array index: for \<^verbatim>\<open>{"27": [...], "9": [...]}\<close>
  \<^verbatim>\<open>Object.keys\<close> is \<^verbatim>\<open>["9", "27"]\<close>, so the index 0 gives \<^verbatim>\<open>"9"\<close> while the
  first key inserted is \<^verbatim>\<open>"27"\<close>.
\<close>

theorem random_exit_point_insertion_order_counterexample:
  "getRandomExitPoint
     \<lparr>body = [], draw = [LineSegment [''DAG'', ''MISEN'']],
      entryPoints = [(''DAG'', [FixName ''DAG'', FixName ''MISEN''])],
      exitPoints = [(''27'', [FixName ''RELIN'']), (''9'', [FixName ''PRINO''])],
      icao = ''KEPEC6'', name = ''Kepec Six'', procedureType = ''STAR''\<rparr> 0 = Some ''9''
   \<and> map fst [(''27'', [FixName ''RELIN'']), (''9'', [FixName ''PRINO''])] ! 0 = ''27''"
  by (simp add: getRandomExitPoint_def at_def Object_keys_def ownProperties_def isArrayIndex_def
      isDigit_def digitsToInt_def)

end
